theory Spec2Isabelle
  imports Complex_Main "HOL-Library.Log_Nat"
begin

section \<open>Values, exceptions and library functions\<close>

text \<open>
  The embedding follows \<^verbatim>\<open>src/subctl/models.py\<close>, \<^verbatim>\<open>src/subctl/orchestrator.py\<close>,
  \<^verbatim>\<open>src/subctl/cli.py\<close> and the monolithic script \<^verbatim>\<open>src/subctl.py\<close>.

  Python values are dynamically typed: a dataclass does not check the annotations of
  its fields, so every field of a record holds an arbitrary value. Values are the JSON
  values plus \<^verbatim>\<open>datetime\<close>. A \<^verbatim>\<open>datetime\<close> is its wall-clock reading in microseconds
  and its UTC offset in microseconds; the offset is \<open>None\<close> for a naive datetime. The
  readings range over what the Python type holds, the years 1 to 9999. A float is the
  rational that the double stands for.
\<close>

datatype datetime = Datetime (micros: int) (utcoffset: "int option")

datatype pyval =
    PNone
  | PBool bool
  | PInt int
  | PFloat rat
  | PStr string
  | PList "pyval list"
  | PDict "(string \<times> pyval) list"
  | PDatetime datetime

text \<open>
  Exceptions are values: the class and the text that \<^verbatim>\<open>str(e)\<close> gives. All classes
  here derive from \<^verbatim>\<open>Exception\<close>, so \<^verbatim>\<open>except Exception\<close> and a bare \<^verbatim>\<open>except\<close>
  catch the same ones; asynchronous signals are not modelled.
\<close>

datatype exc_class =
    ConnectionError
  | TimeoutError
  | ResponseError
  | JSONDecodeError
  | ValueError
  | TypeError
  | AttributeError
  | NameError
  | MarkupError

datatype exc = Exc (exc_class: exc_class) (message: string)

text \<open>The pieces of the messages of the interpreter.\<close>

definition quoted :: "string \<Rightarrow> string" where
  "quoted s = CHR 0x27 # s @ [CHR 0x27]"

definition type_name :: "pyval \<Rightarrow> string" where
  "type_name v =
     (case v of
        PNone \<Rightarrow> ''NoneType''
      | PBool b \<Rightarrow> ''bool''
      | PInt i \<Rightarrow> ''int''
      | PFloat r \<Rightarrow> ''float''
      | PStr s \<Rightarrow> ''str''
      | PList xs \<Rightarrow> ''list''
      | PDict d \<Rightarrow> ''dict''
      | PDatetime d \<Rightarrow> ''datetime.datetime'')"

definition attribute_error :: "pyval \<Rightarrow> string \<Rightarrow> exc" where
  "attribute_error v attr =
     Exc AttributeError (quoted (type_name v) @ '' object has no attribute '' @ quoted attr)"

text \<open>
  A \<^verbatim>\<open>dict\<close> with string keys is an association list in insertion order with
  distinct keys. \<open>dict_set\<close> is \<^verbatim>\<open>d[k] = v\<close>: an existing key keeps its position.
\<close>

type_synonym 'v dict = "(string \<times> 'v) list"

definition dict_get :: "'v dict \<Rightarrow> string \<Rightarrow> 'v option" where
  "dict_get d k = map_of d k"

fun dict_set :: "'v dict \<Rightarrow> string \<Rightarrow> 'v \<Rightarrow> 'v dict" where
  "dict_set [] k v = [(k, v)]"
| "dict_set ((k', v') # d) k v =
     (if k' = k then (k, v) # d else (k', v') # dict_set d k v)"

text \<open>
  The library functions the code calls are parameters of the model: the JSON parser
  and printer, the ISO-8601 parser of \<^verbatim>\<open>datetime\<close>, the built-in \<^verbatim>\<open>format(value, spec)\<close>
  behind the format specifications of the f-strings, \<^verbatim>\<open>str\<close>, \<^verbatim>\<open>strftime\<close>, and the
  markup parser of Rich: \<open>markup_error\<close> gives the \<^verbatim>\<open>MarkupError\<close> that
  \<^verbatim>\<open>console.print\<close> raises for a line, or \<open>None\<close> when the line parses.
\<close>

record pylib =
  json_loads :: "string \<Rightarrow> exc + pyval"
  json_dumps :: "pyval \<Rightarrow> string"
  fromisoformat :: "string \<Rightarrow> exc + datetime"
  py_format :: "pyval \<Rightarrow> string \<Rightarrow> exc + string"
  py_str :: "pyval \<Rightarrow> string"
  strftime :: "datetime \<Rightarrow> string \<Rightarrow> exc + string"
  markup_error :: "string \<Rightarrow> exc option"

section \<open>Floating point\<close>

text \<open>
  Binary64 arithmetic rounds the exact result to the nearest double, ties to the even
  significand. \<open>ilog2 x\<close> is the exponent \<open>e\<close> with \<open>2 ^ e \<le> x < 2 ^ (e + 1)\<close> of a
  positive \<open>x\<close>, and a double with that exponent is a multiple of \<open>2 ^ (e - 52)\<close>. The
  quotients of this program stay in the normal range, so overflow and subnormal numbers
  are left out.
\<close>

definition ilog2 :: "rat \<Rightarrow> int" where
  "ilog2 x = (if 1 \<le> x then bitlen \<lfloor>x\<rfloor> - 1 else - bitlen (\<lceil>1 / x\<rceil> - 1))"

definition round_half_even :: "rat \<Rightarrow> int" where
  "round_half_even y =
     (let f = \<lfloor>y\<rfloor>; r = y - of_int f in
      if r < 1 / 2 then f else if 1 / 2 < r then f + 1 else if even f then f else f + 1)"

definition float_round :: "rat \<Rightarrow> rat" where
  "float_round x =
     (if x = 0 then 0
      else let u = 2 powi (ilog2 \<bar>x\<bar> - 52) in of_int (round_half_even (x / u)) * u)"

section \<open>The data model (models.py)\<close>

record AgentEvent =
  session_key :: pyval
  event_type :: pyval
  timestamp :: pyval
  data :: pyval
  cryptographic_hash :: pyval

record AgentInfo =
  session_key :: pyval
  label :: pyval
  channel :: pyval
  total_tokens :: pyval
  status :: pyval
  last_update :: pyval
  assigned_tickets :: pyval
  package_compliance :: pyval
  custom_code_ratio :: pyval
  consensus_proof :: pyval

definition AgentInfo_fields :: "string list" where
  "AgentInfo_fields =
     [''session_key'', ''label'', ''channel'', ''total_tokens'', ''status'',
      ''last_update'', ''assigned_tickets'', ''package_compliance'',
      ''custom_code_ratio'', ''consensus_proof'']"

definition kwarg :: "pyval dict \<Rightarrow> string \<Rightarrow> pyval" where
  "kwarg kw f = (case dict_get kw f of Some v \<Rightarrow> v | None \<Rightarrow> PNone)"

text \<open>
  \<^verbatim>\<open>AgentInfo(**value)\<close>: the generated constructor has ten parameters without
  defaults. The first key that is no field raises \<^verbatim>\<open>TypeError\<close> with the key in the
  message; otherwise the fields that are no keys raise \<^verbatim>\<open>TypeError\<close> with their
  names in the message; otherwise the values are stored as they are.
\<close>

definition unexpected_keys :: "pyval dict \<Rightarrow> string list" where
  "unexpected_keys kw = filter (\<lambda>k. k \<notin> set AgentInfo_fields) (map fst kw)"

definition missing_fields :: "pyval dict \<Rightarrow> string list" where
  "missing_fields kw = filter (\<lambda>f. dict_get kw f = None) AgentInfo_fields"

fun comma_and :: "string list \<Rightarrow> string" where
  "comma_and [] = []"
| "comma_and [z] = '', and '' @ z"
| "comma_and (y # ys) = '', '' @ y @ comma_and ys"

fun name_list :: "string list \<Rightarrow> string" where
  "name_list [] = []"
| "name_list [a] = a"
| "name_list [a, b] = a @ '' and '' @ b"
| "name_list (a # rest) = a @ comma_and rest"

definition decimal :: "nat \<Rightarrow> string" where
  "decimal n =
     (if n < 10 then [''0123456789'' ! n]
      else [''0123456789'' ! (n div 10), ''0123456789'' ! (n mod 10)])"

definition missing_message :: "string list \<Rightarrow> string" where
  "missing_message names =
     ''AgentInfo.__init__() missing '' @ decimal (length names) @
     (if length names = 1 then '' required positional argument: ''
      else '' required positional arguments: '') @
     name_list (map quoted names)"

definition AgentInfo_init :: "pyval dict \<Rightarrow> exc + AgentInfo" where
  "AgentInfo_init kw =
     (case unexpected_keys kw of
        k # ks \<Rightarrow>
          Inl (Exc TypeError
                 (''AgentInfo.__init__() got an unexpected keyword argument '' @ quoted k))
      | [] \<Rightarrow>
          (case missing_fields kw of
             f # fs \<Rightarrow> Inl (Exc TypeError (missing_message (f # fs)))
           | [] \<Rightarrow>
               Inr \<lparr> session_key = kwarg kw ''session_key'',
                     label = kwarg kw ''label'',
                     channel = kwarg kw ''channel'',
                     total_tokens = kwarg kw ''total_tokens'',
                     status = kwarg kw ''status'',
                     last_update = kwarg kw ''last_update'',
                     assigned_tickets = kwarg kw ''assigned_tickets'',
                     package_compliance = kwarg kw ''package_compliance'',
                     custom_code_ratio = kwarg kw ''custom_code_ratio'',
                     consensus_proof = kwarg kw ''consensus_proof'' \<rparr>))"

text \<open>
  A value of the mapping that \<^verbatim>\<open>get_all_agents\<close> returns: an \<^verbatim>\<open>AgentInfo\<close>, or the
  raw JSON value of a label that did not map to an object.
\<close>

datatype entry = Agent AgentInfo | Raw pyval

section \<open>The store and the console\<close>

text \<open>
  The Redis server as the client sees it: a keyspace of strings and lists, an expiry
  in seconds per key, and a script of faults. Every command consumes the head of the
  script and raises it when it is an exception; an empty script means the store
  answers. The console is the list of lines printed so far.
\<close>

datatype rvalue = RString string | RList "string list"

record world =
  keyspace :: "string \<Rightarrow> rvalue option"
  expiry :: "string \<Rightarrow> nat option"
  faults :: "exc option list"
  console :: "string list"

text \<open>
  \<^verbatim>\<open>console.print(line)\<close>: Rich parses the markup of the whole line, the
  interpolated text included, before anything is written. A line that does not parse
  raises \<^verbatim>\<open>MarkupError\<close> and leaves the console as it was.
\<close>

definition console_print :: "pylib \<Rightarrow> world \<Rightarrow> string \<Rightarrow> (exc + unit) \<times> world" where
  "console_print lib w s =
     (case markup_error lib s of
        Some e \<Rightarrow> (Inl e, w)
      | None \<Rightarrow> (Inr (), w\<lparr>console := console w @ [s]\<rparr>))"

definition next_fault :: "world \<Rightarrow> exc option \<times> world" where
  "next_fault w =
     (case faults w of [] \<Rightarrow> (None, w) | f # fs \<Rightarrow> (f, w\<lparr>faults := fs\<rparr>))"

definition wrongtype :: exc where
  "wrongtype = Exc ResponseError
     ''WRONGTYPE Operation against a key holding the wrong kind of value''"

definition redis_get :: "world \<Rightarrow> string \<Rightarrow> (exc + string option) \<times> world" where
  "redis_get w k =
     (case next_fault w of
        (Some e, w1) \<Rightarrow> (Inl e, w1)
      | (None, w1) \<Rightarrow>
          (case keyspace w1 k of
             None \<Rightarrow> (Inr None, w1)
           | Some (RString s) \<Rightarrow> (Inr (Some s), w1)
           | Some (RList xs) \<Rightarrow> (Inl wrongtype, w1)))"

definition redis_lpush :: "world \<Rightarrow> string \<Rightarrow> string \<Rightarrow> (exc + nat) \<times> world" where
  "redis_lpush w k v =
     (case next_fault w of
        (Some e, w1) \<Rightarrow> (Inl e, w1)
      | (None, w1) \<Rightarrow>
          (case keyspace w1 k of
             None \<Rightarrow> (Inr 1, w1\<lparr>keyspace := (keyspace w1)(k \<mapsto> RList [v])\<rparr>)
           | Some (RList xs) \<Rightarrow>
               (Inr (Suc (length xs)), w1\<lparr>keyspace := (keyspace w1)(k \<mapsto> RList (v # xs))\<rparr>)
           | Some (RString s) \<Rightarrow> (Inl wrongtype, w1)))"

definition redis_expire :: "world \<Rightarrow> string \<Rightarrow> nat \<Rightarrow> (exc + bool) \<times> world" where
  "redis_expire w k secs =
     (case next_fault w of
        (Some e, w1) \<Rightarrow> (Inl e, w1)
      | (None, w1) \<Rightarrow>
          (case keyspace w1 k of
             None \<Rightarrow> (Inr False, w1)
           | Some x \<Rightarrow> (Inr True, w1\<lparr>expiry := (expiry w1)(k \<mapsto> secs)\<rparr>)))"

section \<open>The snapshot fetcher (get_all_agents)\<close>

text \<open>\<^verbatim>\<open>raw_data.items()\<close>: only a dict has the method.\<close>

definition items :: "pyval \<Rightarrow> exc + pyval dict" where
  "items v = (case v of PDict d \<Rightarrow> Inr d | _ \<Rightarrow> Inl (attribute_error v ''items''))"

text \<open>
  The body of the loop for one value: a dict has a textual \<^verbatim>\<open>last_update\<close> replaced
  by the parsed datetime and is passed to the constructor; any other value is kept.
\<close>

definition convert_last_update :: "pylib \<Rightarrow> pyval dict \<Rightarrow> exc + pyval dict" where
  "convert_last_update lib d =
     (case dict_get d ''last_update'' of
        Some (PStr s) \<Rightarrow>
          (case fromisoformat lib s of
             Inl e \<Rightarrow> Inl e
           | Inr dt \<Rightarrow> Inr (dict_set d ''last_update'' (PDatetime dt)))
      | _ \<Rightarrow> Inr d)"

definition decode_value :: "pylib \<Rightarrow> pyval \<Rightarrow> exc + entry" where
  "decode_value lib v =
     (case v of
        PDict d \<Rightarrow>
          (case convert_last_update lib d of
             Inl e \<Rightarrow> Inl e
           | Inr d' \<Rightarrow>
               (case AgentInfo_init d' of
                  Inl e \<Rightarrow> Inl e
                | Inr a \<Rightarrow> Inr (Agent a)))
      | _ \<Rightarrow> Inr (Raw v))"

fun decode_items :: "pylib \<Rightarrow> pyval dict \<Rightarrow> entry dict \<Rightarrow> exc + entry dict" where
  "decode_items lib [] result = Inr result"
| "decode_items lib ((key, v) # rest) result =
     (case decode_value lib v of
        Inl e \<Rightarrow> Inl e
      | Inr x \<Rightarrow> decode_items lib rest (dict_set result key x))"

text \<open>
  The body of the \<^verbatim>\<open>try\<close> block, which is the same text in both files. The result is
  the exception raised, or \<open>Some result\<close> when \<^verbatim>\<open>return result\<close> is reached, or \<open>None\<close>
  when the blob is absent or empty and control leaves the block.
\<close>

definition get_all_agents_try :: "pylib \<Rightarrow> world \<Rightarrow> (exc + entry dict option) \<times> world" where
  "get_all_agents_try lib w =
     (case redis_get w ''subctl:agents'' of
        (Inl e, w1) \<Rightarrow> (Inl e, w1)
      | (Inr None, w1) \<Rightarrow> (Inr None, w1)
      | (Inr (Some agent_data), w1) \<Rightarrow>
          (if agent_data = [] then (Inr None, w1)
           else
             (case json_loads lib agent_data of
                Inl e \<Rightarrow> (Inl e, w1)
              | Inr raw_data \<Rightarrow>
                  (case items raw_data of
                     Inl e \<Rightarrow> (Inl e, w1)
                   | Inr kvs \<Rightarrow>
                       (case decode_items lib kvs [] of
                          Inl e \<Rightarrow> (Inl e, w1)
                        | Inr result \<Rightarrow> (Inr (Some result), w1))))))"

text \<open>
  \<^verbatim>\<open>src/subctl/orchestrator.py\<close>: the handler prints the exception and the method
  returns the empty dict. The print is inside the handler, so a \<^verbatim>\<open>MarkupError\<close> of
  the print leaves the method as an exception.
\<close>

definition read_error_line :: "exc \<Rightarrow> string" where
  "read_error_line e = ''[red]Error reading from Redis: '' @ message e @ ''[/red]''"

definition get_all_agents :: "pylib \<Rightarrow> world \<Rightarrow> (exc + entry dict) \<times> world" where
  "get_all_agents lib w =
     (case get_all_agents_try lib w of
        (Inr (Some result), w1) \<Rightarrow> (Inr result, w1)
      | (Inr None, w1) \<Rightarrow> (Inr [], w1)
      | (Inl e, w1) \<Rightarrow>
          (case console_print lib w1 (read_error_line e) of
             (Inl e', w2) \<Rightarrow> (Inl e', w2)
           | (Inr u, w2) \<Rightarrow> (Inr [], w2)))"

text \<open>
  \<^verbatim>\<open>src/subctl.py\<close>: the orchestrator object has the field \<^verbatim>\<open>agents\<close>, set to the
  empty dict by \<^verbatim>\<open>__init__\<close>; no method assigns to it. The handler is
  \<^verbatim>\<open>except: pass\<close>, and the fallback returns the field.
\<close>

record SubCtlOrchestrator =
  agents :: "entry dict"

definition script_init :: SubCtlOrchestrator where
  "script_init = \<lparr> agents = [] \<rparr>"

definition script_get_all_agents ::
  "pylib \<Rightarrow> SubCtlOrchestrator \<Rightarrow> world \<Rightarrow> entry dict \<times> world" where
  "script_get_all_agents lib self w =
     (case get_all_agents_try lib w of
        (Inr (Some result), w1) \<Rightarrow> (result, w1)
      | (Inr None, w1) \<Rightarrow> (agents self, w1)
      | (Inl e, w1) \<Rightarrow> (agents self, w1))"


section \<open>The liveness filter (get_active_agents)\<close>

text \<open>
  \<^verbatim>\<open>now - agent.last_update\<close>, as a \<^verbatim>\<open>timedelta\<close> in microseconds. Python subtracts
  two naive or two aware datetimes; a naive and an aware one, or a datetime and any
  other value, raise \<^verbatim>\<open>TypeError\<close>.
\<close>

definition sub_datetime :: "datetime \<Rightarrow> pyval \<Rightarrow> exc + int" where
  "sub_datetime now v =
     (case v of
        PDatetime d \<Rightarrow>
          (case (utcoffset now, utcoffset d) of
             (None, None) \<Rightarrow> Inr (micros now - micros d)
           | (Some a, Some b) \<Rightarrow> Inr ((micros now - a) - (micros d - b))
           | _ \<Rightarrow>
               Inl (Exc TypeError
                      (''can'' @ [CHR 0x27] @
                       ''t subtract offset-naive and offset-aware datetimes'')))
      | _ \<Rightarrow>
          Inl (Exc TypeError
                 (''unsupported operand type(s) for -: '' @ quoted ''datetime.datetime'' @
                  '' and '' @ quoted (type_name v))))"

text \<open>
  \<^verbatim>\<open>td.total_seconds() / 60\<close>. \<^verbatim>\<open>total_seconds\<close> is the true division of the
  microseconds by \<open>10 ^ 6\<close>, rounded to a double, and the division by 60 rounds again.
\<close>

definition total_seconds :: "int \<Rightarrow> rat" where
  "total_seconds td = float_round (of_int td / 1000000)"

definition age_minutes :: "int \<Rightarrow> rat" where
  "age_minutes td = float_round (total_seconds td / 60)"

text \<open>
  The loop over \<^verbatim>\<open>all_agents.items()\<close>, with \<^verbatim>\<open>active_agents\<close> as accumulator. The
  comparison of the double with the integer threshold is exact.
\<close>

fun get_active_agents_loop ::
  "datetime \<Rightarrow> int \<Rightarrow> entry dict \<Rightarrow> entry dict \<Rightarrow> exc + entry dict" where
  "get_active_agents_loop now max_age_minutes [] active_agents = Inr active_agents"
| "get_active_agents_loop now max_age_minutes ((lbl, Raw v) # rest) active_agents =
     get_active_agents_loop now max_age_minutes rest active_agents"
| "get_active_agents_loop now max_age_minutes ((lbl, Agent agent) # rest) active_agents =
     (case sub_datetime now (last_update agent) of
        Inl e \<Rightarrow> Inl e
      | Inr td \<Rightarrow>
          (if age_minutes td \<le> of_int max_age_minutes
           then get_active_agents_loop now max_age_minutes rest
                  (dict_set active_agents lbl (Agent agent))
           else get_active_agents_loop now max_age_minutes rest active_agents))"

text \<open>
  \<open>clock\<close> is the reading of \<^verbatim>\<open>datetime.now()\<close>, a naive datetime, taken after the
  snapshot is fetched. The argument \<open>max_age\<close> is \<open>None\<close> when the caller omits it:
  the default is 10. An exception of the fetch leaves the method.
\<close>

definition get_active_agents ::
  "pylib \<Rightarrow> int \<Rightarrow> int option \<Rightarrow> world \<Rightarrow> (exc + entry dict) \<times> world" where
  "get_active_agents lib clock max_age w =
     (let max_age_minutes = (case max_age of None \<Rightarrow> 10 | Some m \<Rightarrow> m) in
      case get_all_agents lib w of
        (Inl e, w1) \<Rightarrow> (Inl e, w1)
      | (Inr all_agents, w1) \<Rightarrow>
          (get_active_agents_loop (Datetime clock None) max_age_minutes all_agents [], w1))"

definition get_agent_info ::
  "pylib \<Rightarrow> string \<Rightarrow> world \<Rightarrow> (exc + entry option) \<times> world" where
  "get_agent_info lib agent_label w =
     (case get_all_agents lib w of
        (Inl e, w1) \<Rightarrow> (Inl e, w1)
      | (Inr all_agents, w1) \<Rightarrow> (Inr (dict_get all_agents agent_label), w1))"

section \<open>The event recorder (record_agent_event)\<close>

text \<open>The names bound at module level in each file: imports, classes, functions.\<close>

definition orchestrator_names :: "string list" where
  "orchestrator_names =
     [''json'', ''datetime'', ''Dict'', ''Optional'', ''redis'', ''Console'',
      ''AgentInfo'', ''AgentEvent'', ''console'', ''SubCtlOrchestrator'']"

definition script_names :: "string list" where
  "script_names =
     [''asyncio'', ''json'', ''sys'', ''time'', ''argparse'', ''datetime'', ''Dict'',
      ''List'', ''Optional'', ''Any'', ''dataclass'', ''asdict'', ''Path'', ''Console'',
      ''Table'', ''Panel'', ''redis'', ''psutil'', ''cryptography'', ''pyjwt'',
      ''console'', ''AgentInfo'', ''AgentEvent'', ''SubCtlOrchestrator'', ''main'',
      ''generate_agents_table'']"

definition asdict :: "AgentEvent \<Rightarrow> pyval" where
  "asdict event =
     PDict [(''session_key'', AgentEvent.session_key event),
            (''event_type'', event_type event),
            (''timestamp'', timestamp event),
            (''data'', data event),
            (''cryptographic_hash'', cryptographic_hash event)]"

text \<open>
  \<^verbatim>\<open>json.dumps\<close> with the default encoder: a \<^verbatim>\<open>datetime\<close> anywhere in the value
  raises \<^verbatim>\<open>TypeError\<close>.
\<close>

fun json_serializable :: "pyval \<Rightarrow> bool" where
  "json_serializable (PDatetime d) = False"
| "json_serializable (PList xs) = list_all json_serializable xs"
| "json_serializable (PDict kvs) = list_all (\<lambda>kv. json_serializable (snd kv)) kvs"
| "json_serializable v = True"

definition dumps :: "pylib \<Rightarrow> pyval \<Rightarrow> exc + string" where
  "dumps lib v =
     (if json_serializable v then Inr (json_dumps lib v)
      else Inl (Exc TypeError ''Object of type datetime is not JSON serializable''))"

text \<open>
  The body of the \<^verbatim>\<open>try\<close> block. The arguments of \<^verbatim>\<open>lpush\<close> are evaluated before
  the call: the global \<^verbatim>\<open>asdict\<close> is looked up in the names of the module, then the
  event is serialised, and only then is the store reached.
\<close>

definition record_agent_event_try ::
  "string list \<Rightarrow> pylib \<Rightarrow> string \<Rightarrow> AgentEvent \<Rightarrow> world \<Rightarrow> (exc + unit) \<times> world" where
  "record_agent_event_try names lib agent_label event w =
     (let event_key = ''subctl:events:'' @ agent_label in
      if ''asdict'' \<notin> set names then
        (Inl (Exc NameError (''name '' @ quoted ''asdict'' @ '' is not defined'')), w)
      else
        (case dumps lib (asdict event) of
           Inl e \<Rightarrow> (Inl e, w)
         | Inr s \<Rightarrow>
             (case redis_lpush w event_key s of
                (Inl e, w1) \<Rightarrow> (Inl e, w1)
              | (Inr n, w1) \<Rightarrow>
                  (case redis_expire w1 event_key 3600 of
                     (Inl e, w2) \<Rightarrow> (Inl e, w2)
                   | (Inr b, w2) \<Rightarrow> (Inr (), w2)))))"

definition record_error_line :: "exc \<Rightarrow> string" where
  "record_error_line e = ''[red]Error recording event: '' @ message e @ ''[/red]''"

text \<open>The handler prints the exception; the print can raise in its turn.\<close>

definition record_agent_event_in ::
  "string list \<Rightarrow> pylib \<Rightarrow> string \<Rightarrow> AgentEvent \<Rightarrow> world \<Rightarrow> (exc + unit) \<times> world" where
  "record_agent_event_in names lib agent_label event w =
     (case record_agent_event_try names lib agent_label event w of
        (Inr u, w1) \<Rightarrow> (Inr (), w1)
      | (Inl e, w1) \<Rightarrow> console_print lib w1 (record_error_line e))"

text \<open>\<^verbatim>\<open>src/subctl/orchestrator.py\<close> and \<^verbatim>\<open>src/subctl.py\<close>: the same method text.\<close>

definition record_agent_event ::
  "pylib \<Rightarrow> string \<Rightarrow> AgentEvent \<Rightarrow> world \<Rightarrow> (exc + unit) \<times> world" where
  "record_agent_event = record_agent_event_in orchestrator_names"

definition script_record_agent_event ::
  "pylib \<Rightarrow> string \<Rightarrow> AgentEvent \<Rightarrow> world \<Rightarrow> (exc + unit) \<times> world" where
  "script_record_agent_event = record_agent_event_in script_names"

section \<open>The presenter (cli.py)\<close>




text \<open>Truth value of what \<^verbatim>\<open>get_agent_info\<close> returned, as \<^verbatim>\<open>if agent_info:\<close> tests it.\<close>

fun truthy :: "pyval \<Rightarrow> bool" where
  "truthy PNone = False"
| "truthy (PBool b) = b"
| "truthy (PInt i) = (i \<noteq> 0)"
| "truthy (PFloat r) = (r \<noteq> 0)"
| "truthy (PStr s) = (s \<noteq> [])"
| "truthy (PList xs) = (xs \<noteq> [])"
| "truthy (PDict kvs) = (kvs \<noteq> [])"
| "truthy (PDatetime d) = True"

fun truthy_info :: "entry option \<Rightarrow> bool" where
  "truthy_info None = False"
| "truthy_info (Some (Agent a)) = True"
| "truthy_info (Some (Raw v)) = truthy v"

record inspect_args =
  agent_label :: string
  logs :: bool
  tools :: bool
  tokens :: bool
  packages :: bool

text \<open>One print followed by the rest of the block; an exception ends the block.\<close>

definition print_then ::
  "pylib \<Rightarrow> string \<Rightarrow> (world \<Rightarrow> (exc + unit) \<times> world) \<Rightarrow> world \<Rightarrow> (exc + unit) \<times> world" where
  "print_then lib s rest w =
     (case console_print lib w s of
        (Inl e, w1) \<Rightarrow> (Inl e, w1)
      | (Inr u, w1) \<Rightarrow> rest w1)"

definition print_if ::
  "pylib \<Rightarrow> bool \<Rightarrow> string \<Rightarrow> (world \<Rightarrow> (exc + unit) \<times> world) \<Rightarrow> world \<Rightarrow>
   (exc + unit) \<times> world" where
  "print_if lib b s rest w = (if b then print_then lib s rest w else rest w)"

definition print_flags :: "pylib \<Rightarrow> inspect_args \<Rightarrow> world \<Rightarrow> (exc + unit) \<times> world" where
  "print_flags lib args =
     print_if lib (logs args) ''\<newline>[dim]--- Recent Activity (last 10 minutes) ---[/dim]''
       (print_if lib (tools args) ''\<newline>[dim]--- Recent Tool Calls ---[/dim]''
          (print_if lib (tokens args) ''\<newline>[dim]--- Token Usage ---[/dim]''
             (print_if lib (packages args) ''\<newline>[dim]--- Package Compliance ---[/dim]''
                (\<lambda>w. (Inr (), w)))))"

text \<open>
  The five prints of the found branch and the section headers of the flags. Each
  argument is evaluated before its print; an exception leaves the lines printed before
  it on the console.
\<close>

definition print_agent_info ::
  "pylib \<Rightarrow> inspect_args \<Rightarrow> entry \<Rightarrow> world \<Rightarrow> (exc + unit) \<times> world" where
  "print_agent_info lib args info w =
     (case info of
        Raw v \<Rightarrow> (Inl (attribute_error v ''label''), w)
      | Agent agent_info \<Rightarrow>
          print_then lib (''[bold]Agent: '' @ py_str lib (label agent_info) @ ''[/bold]'')
            (print_then lib (''Status: '' @ py_str lib (status agent_info))
               (\<lambda>w2.
                  case py_format lib (total_tokens agent_info) '','' of
                    Inl e \<Rightarrow> (Inl e, w2)
                  | Inr toks \<Rightarrow>
                      print_then lib (''Tokens: '' @ toks)
                        (\<lambda>w3.
                           case py_format lib (package_compliance agent_info) ''.1%'' of
                             Inl e \<Rightarrow> (Inl e, w3)
                           | Inr pc \<Rightarrow>
                               print_then lib (''Package Compliance: '' @ pc)
                                 (\<lambda>w4.
                                    case last_update agent_info of
                                      PDatetime d \<Rightarrow>
                                        (case strftime lib d ''%Y-%m-%d %H:%M:%S'' of
                                           Inl e \<Rightarrow> (Inl e, w4)
                                         | Inr stamp \<Rightarrow>
                                             print_then lib (''Last Update: '' @ stamp)
                                               (print_flags lib args) w4)
                                    | v \<Rightarrow> (Inl (attribute_error v ''strftime''), w4))
                                 w3)
                        w2))
            w)"

text \<open>The branch \<^verbatim>\<open>agents inspect\<close> of \<^verbatim>\<open>main\<close>.\<close>

definition not_found_line :: "string \<Rightarrow> string" where
  "not_found_line l = ''[red]Agent '' @ l @ '' not found[/red]''"

definition inspect :: "pylib \<Rightarrow> inspect_args \<Rightarrow> world \<Rightarrow> (exc + unit) \<times> world" where
  "inspect lib args w =
     (case get_agent_info lib (agent_label args) w of
        (Inl e, w1) \<Rightarrow> (Inl e, w1)
      | (Inr agent_info, w1) \<Rightarrow>
          (if truthy_info agent_info then
             (case agent_info of
                Some info \<Rightarrow> print_agent_info lib args info w1
              | None \<Rightarrow> (Inr (), w1))
           else console_print lib w1 (not_found_line (agent_label args))))"

section \<open>The serialized form\<close>

text \<open>
  Modelled from the spec: the per-agent field mapping that a record is written as. No
  file of the repository encodes a record or a snapshot; the producer is external. By
  sections 4.1 and 6 of the specification each field is written under its name,
  \<^verbatim>\<open>last_update\<close> as ISO-8601 text and every other field as it is. \<open>isoformat\<close> is
  the formatter of the timestamp.
\<close>

definition encode_record :: "(datetime \<Rightarrow> string) \<Rightarrow> AgentInfo \<Rightarrow> pyval" where
  "encode_record isoformat a =
     PDict [(''session_key'', AgentInfo.session_key a),
            (''label'', label a),
            (''channel'', channel a),
            (''total_tokens'', total_tokens a),
            (''status'', status a),
            (''last_update'',
               (case last_update a of PDatetime dt \<Rightarrow> PStr (isoformat dt) | v \<Rightarrow> v)),
            (''assigned_tickets'', assigned_tickets a),
            (''package_compliance'', package_compliance a),
            (''custom_code_ratio'', custom_code_ratio a),
            (''consensus_proof'', consensus_proof a)]"

text \<open>
  Modelled from the spec: the serialized snapshot, one mapping from label to per-agent
  field mapping (section 6), missing from the repository like the encoding of a record.
  The blob is the JSON text of this value.
\<close>

definition encode_snapshot :: "(datetime \<Rightarrow> string) \<Rightarrow> entry dict \<Rightarrow> pyval" where
  "encode_snapshot isoformat S =
     PDict (map (\<lambda>kv. (fst kv, case snd kv of Agent a \<Rightarrow> encode_record isoformat a
                                           | Raw v \<Rightarrow> v)) S)"

section \<open>Concrete inputs\<close>

text \<open>
  A library and stores for the closed examples. Time is counted from
  2024-01-01T00:00:00. The parsers and the formatters are the finite parts of the
  Python functions that the examples reach; a float of an example is written as the
  decimal literal of the blob.
\<close>

definition example_fields :: "string \<Rightarrow> pyval \<Rightarrow> pyval \<Rightarrow> pyval dict" where
  "example_fields name lu pc =
     [(''session_key'', PStr ''k''), (''label'', PStr name), (''channel'', PStr ''c''),
      (''total_tokens'', PInt 1200), (''status'', PStr ''working''), (''last_update'', lu),
      (''assigned_tickets'', PList []), (''package_compliance'', pc),
      (''custom_code_ratio'', PFloat (1 / 10)), (''consensus_proof'', PNone)]"

definition example_agent :: "string \<Rightarrow> pyval \<Rightarrow> pyval \<Rightarrow> AgentInfo" where
  "example_agent name lu pc =
     \<lparr> session_key = PStr ''k'', label = PStr name, channel = PStr ''c'',
       total_tokens = PInt 1200, status = PStr ''working'', last_update = lu,
       assigned_tickets = PList [], package_compliance = pc,
       custom_code_ratio = PFloat (1 / 10), consensus_proof = PNone \<rparr>"

definition blob_aware :: string where
  \<open>blob_aware = ''{"a": {"session_key": "k", "label": "a", "channel": "c", "total_tokens": 1200, "status": "working", "last_update": "2024-01-01T00:00:00+00:00", "assigned_tickets": [], "package_compliance": 0.5, "custom_code_ratio": 0.1, "consensus_proof": null}}''\<close>

definition blob_epoch :: string where
  \<open>blob_epoch = ''{"a": {"session_key": "k", "label": "a", "channel": "c", "total_tokens": 1200, "status": "working", "last_update": 1704067200, "assigned_tickets": [], "package_compliance": 0.5, "custom_code_ratio": 0.1, "consensus_proof": null}}''\<close>

definition blob_old :: string where
  \<open>blob_old = ''{"old": {"session_key": "k", "label": "old", "channel": "c", "total_tokens": 1200, "status": "working", "last_update": "1453-08-08T16:09:59.999999", "assigned_tickets": [], "package_compliance": 0.5, "custom_code_ratio": 0.1, "consensus_proof": null}}''\<close>

definition blob_skew :: string where
  \<open>blob_skew = ''{"future": {"session_key": "k", "label": "future", "channel": "c", "total_tokens": 1200, "status": "working", "last_update": "2024-01-01T00:20:00", "assigned_tickets": [], "package_compliance": 0.5, "custom_code_ratio": 0.1, "consensus_proof": null}, "a": {"session_key": "k", "label": "a", "channel": "c", "total_tokens": 1200, "status": "working", "last_update": "2024-01-01T00:00:00+00:00", "assigned_tickets": [], "package_compliance": 0.5, "custom_code_ratio": 0.1, "consensus_proof": null}}''\<close>

definition blob_partial :: string where
  \<open>blob_partial = ''{"good": {"session_key": "k", "label": "good", "channel": "c", "total_tokens": 1200, "status": "working", "last_update": "2024-01-01T00:05:00", "assigned_tickets": [], "package_compliance": 0.5, "custom_code_ratio": 0.1, "consensus_proof": null}, "bad": {"label": "bad"}}''\<close>

definition blob_wrongtype :: string where
  \<open>blob_wrongtype = ''{"good": {"session_key": "k", "label": "good", "channel": "c", "total_tokens": 1200, "status": "working", "last_update": "2024-01-01T00:05:00", "assigned_tickets": [], "package_compliance": 0.5, "custom_code_ratio": 0.1, "consensus_proof": null}, "odd": {"session_key": "k", "label": "odd", "channel": "c", "total_tokens": 1200, "status": "working", "last_update": 1704067200, "assigned_tickets": [], "package_compliance": "high", "custom_code_ratio": 0.1, "consensus_proof": null}}''\<close>

definition blob_markup :: string where
  \<open>blob_markup = ''{"a": {"session_key": "k", "label": "a", "channel": "c", "total_tokens": 1200, "status": "working", "last_update": "[/x]", "assigned_tickets": [], "package_compliance": 0.5, "custom_code_ratio": 0.1, "consensus_proof": null}}''\<close>

definition blob_raw_abort :: string where
  \<open>blob_raw_abort = ''{"n": 7, "bad": {}}''\<close>

definition blob_fleet :: string where
  \<open>blob_fleet = ''{"fresh": {"session_key": "k", "label": "fresh", "channel": "c", "total_tokens": 1200, "status": "working", "last_update": "2024-01-01T00:05:00", "assigned_tickets": [], "package_compliance": 0.5, "custom_code_ratio": 0.1, "consensus_proof": null}, "stale": {"session_key": "k", "label": "stale", "channel": "c", "total_tokens": 1200, "status": "working", "last_update": "2023-12-31T23:00:00", "assigned_tickets": [], "package_compliance": 0.5, "custom_code_ratio": 0.1, "consensus_proof": null}, "future": {"session_key": "k", "label": "future", "channel": "c", "total_tokens": 1200, "status": "working", "last_update": "2024-01-01T00:20:00", "assigned_tickets": [], "package_compliance": 0.5, "custom_code_ratio": 0.1, "consensus_proof": null}, "n": 7}''\<close>

definition blob_single :: string where
  \<open>blob_single = ''{"good": {"session_key": "k", "label": "good", "channel": "c", "total_tokens": 1200, "status": "working", "last_update": "2024-01-01T00:05:00", "assigned_tickets": [], "package_compliance": 0.5, "custom_code_ratio": 0.1, "consensus_proof": null}}''\<close>

definition single :: pyval where
  "single =
     PDict [(''good'', PDict (example_fields ''good'' (PStr ''2024-01-01T00:05:00'')
                                (PFloat (1 / 2))))]"

definition example_loads :: "string \<Rightarrow> exc + pyval" where
  "example_loads s =
     (if s = blob_aware then
        Inr (PDict [(''a'', PDict (example_fields ''a'' (PStr ''2024-01-01T00:00:00+00:00'')
                                     (PFloat (1 / 2))))])
      else if s = blob_epoch then
        Inr (PDict [(''a'', PDict (example_fields ''a'' (PInt 1704067200) (PFloat (1 / 2))))])
      else if s = blob_old then
        Inr (PDict [(''old'', PDict (example_fields ''old''
                                       (PStr ''1453-08-08T16:09:59.999999'') (PFloat (1 / 2))))])
      else if s = blob_skew then
        Inr (PDict [(''future'', PDict (example_fields ''future'' (PStr ''2024-01-01T00:20:00'')
                                          (PFloat (1 / 2)))),
                    (''a'', PDict (example_fields ''a'' (PStr ''2024-01-01T00:00:00+00:00'')
                                     (PFloat (1 / 2))))])
      else if s = blob_partial then
        Inr (PDict [(''good'', PDict (example_fields ''good'' (PStr ''2024-01-01T00:05:00'')
                                        (PFloat (1 / 2)))),
                    (''bad'', PDict [(''label'', PStr ''bad'')])])
      else if s = blob_wrongtype then
        Inr (PDict [(''good'', PDict (example_fields ''good'' (PStr ''2024-01-01T00:05:00'')
                                        (PFloat (1 / 2)))),
                    (''odd'', PDict (example_fields ''odd'' (PInt 1704067200)
                                       (PStr ''high'')))])
      else if s = blob_markup then
        Inr (PDict [(''a'', PDict (example_fields ''a'' (PStr ''[/x]'') (PFloat (1 / 2))))])
      else if s = blob_raw_abort then
        Inr (PDict [(''n'', PInt 7), (''bad'', PDict [])])
      else if s = blob_single then Inr single
      else if s = blob_fleet then
        Inr (PDict [(''fresh'', PDict (example_fields ''fresh'' (PStr ''2024-01-01T00:05:00'')
                                         (PFloat (1 / 2)))),
                    (''stale'', PDict (example_fields ''stale'' (PStr ''2023-12-31T23:00:00'')
                                         (PFloat (1 / 2)))),
                    (''future'', PDict (example_fields ''future'' (PStr ''2024-01-01T00:20:00'')
                                          (PFloat (1 / 2)))),
                    (''n'', PInt 7)])
      else Inl (Exc JSONDecodeError ''Expecting value: line 1 column 1 (char 0)''))"

definition example_fromisoformat :: "string \<Rightarrow> exc + datetime" where
  "example_fromisoformat s =
     (if s = ''2024-01-01T00:00:00+00:00'' then Inr (Datetime 0 (Some 0))
      else if s = ''2024-01-01T00:05:00'' then Inr (Datetime 300000000 None)
      else if s = ''2023-12-31T23:00:00'' then Inr (Datetime (- 3600000000) None)
      else if s = ''2024-01-01T00:20:00'' then Inr (Datetime 1200000000 None)
      else if s = ''1453-08-08T16:09:59.999999'' then
        Inr (Datetime (- 17999999400000001) None)
      else Inl (Exc ValueError (''Invalid isoformat string: '' @ quoted s)))"

definition example_isoformat :: "datetime \<Rightarrow> string" where
  "example_isoformat d =
     (if d = Datetime 0 (Some 0) then ''2024-01-01T00:00:00+00:00''
      else if d = Datetime 300000000 None then ''2024-01-01T00:05:00''
      else if d = Datetime (- 3600000000) None then ''2023-12-31T23:00:00''
      else if d = Datetime 1200000000 None then ''2024-01-01T00:20:00''
      else ''0001-01-01T00:00:00'')"

definition example_dumps :: "pyval \<Rightarrow> string" where
  "example_dumps v = (if v = single then blob_single else ''{}'')"

definition example_format :: "pyval \<Rightarrow> string \<Rightarrow> exc + string" where
  "example_format v spec =
     (if spec = ''.1%'' \<and> v = PFloat (1 / 2) then Inr ''50.0%''
      else if spec = ''.1%'' \<and> v = PFloat (9 / 10) then Inr ''90.0%''
      else if spec = ''.1%'' \<and> v = PFloat (99 / 100) then Inr ''99.0%''
      else if spec = '','' \<and> v = PInt 1200 then Inr ''1,200''
      else Inl (Exc ValueError
                  (''Unknown format code '' @ quoted ''%'' @ '' for object of type '' @
                   quoted (type_name v))))"

definition example_strftime :: "datetime \<Rightarrow> string \<Rightarrow> exc + string" where
  "example_strftime d spec =
     (if d = Datetime (- 3600000000) None \<and> spec = ''%Y-%m-%d %H:%M:%S''
      then Inr ''2023-12-31 23:00:00''
      else Inl (Exc ValueError ''Invalid format string''))"

text \<open>
  The markup parser at the lines of the examples: a closing tag that no open tag
  matches is refused, with its position in the line; the other lines of the examples
  hold no tag but the balanced ones of the program text.
\<close>

definition example_markup :: "string \<Rightarrow> exc option" where
  "example_markup s =
     (if s = ''[red]Agent [/x] not found[/red]'' then
        Some (Exc MarkupError
                (''closing tag '' @ quoted ''[/x]'' @ '' at position 11 doesn'' @
                 [CHR 0x27] @ ''t match any open tag''))
      else if s = ''[red]Error reading from Redis: Invalid isoformat string: '' @
                  quoted ''[/x]'' @ ''[/red]'' then
        Some (Exc MarkupError
                (''closing tag '' @ quoted ''[/x]'' @ '' at position 58 doesn'' @
                 [CHR 0x27] @ ''t match any open tag''))
      else None)"

definition example_lib :: pylib where
  "example_lib =
     \<lparr> json_loads = example_loads,
       json_dumps = example_dumps,
       fromisoformat = example_fromisoformat,
       py_format = example_format,
       py_str = (\<lambda>v. case v of PStr s \<Rightarrow> s | _ \<Rightarrow> ''?''),
       strftime = example_strftime,
       markup_error = example_markup \<rparr>"

definition store_with :: "string \<Rightarrow> world" where
  "store_with blob =
     \<lparr> keyspace = [''subctl:agents'' \<mapsto> RString blob],
       expiry = Map.empty, faults = [], console = [] \<rparr>"

definition store_down :: world where
  "store_down =
     \<lparr> keyspace = Map.empty, expiry = Map.empty,
       faults = [Some (Exc ConnectionError ''Connection refused'')], console = [] \<rparr>"

text \<open>The snapshot that \<open>blob_fleet\<close> decodes to.\<close>

definition fleet :: "entry dict" where
  "fleet =
     [(''fresh'', Agent (example_agent ''fresh'' (PDatetime (Datetime 300000000 None))
                          (PFloat (1 / 2)))),
      (''stale'', Agent (example_agent ''stale'' (PDatetime (Datetime (- 3600000000) None))
                          (PFloat (1 / 2)))),
      (''future'', Agent (example_agent ''future'' (PDatetime (Datetime 1200000000 None))
                           (PFloat (1 / 2)))),
      (''n'', Raw (PInt 7))]"

definition example_event :: AgentEvent where
  "example_event =
     \<lparr> AgentEvent.session_key = PStr ''k'', event_type = PStr ''started'',
       timestamp = PDatetime (Datetime 0 None), data = PDict [],
       cryptographic_hash = PStr ''h'' \<rparr>"

section \<open>Rounding to a double\<close>

text \<open>The exponent brackets a positive number.\<close>

lemma ilog2_ge1:
  assumes "1 \<le> x"
  shows "2 powi ilog2 x \<le> x \<and> x < 2 powi (ilog2 x + 1)"
proof -
  let ?n = "\<lfloor>x\<rfloor>"
  from assms have n: "0 < ?n" by simp
  from bitlen_bounds [OF n] have lo: "2 ^ nat (bitlen ?n - 1) \<le> ?n" and hi: "?n < 2 ^ nat (bitlen ?n)"
    by auto
  from n have b1: "1 \<le> bitlen ?n" by (simp add: bitlen_alt_def)
  have e: "ilog2 x = bitlen ?n - 1" using assms by (simp add: ilog2_def)
  have "(2::rat) powi (bitlen ?n - 1) = 2 ^ nat (bitlen ?n - 1)"
    using b1 by (simp add: power_int_nonneg_exp)
  also have "\<dots> = of_int (2 ^ nat (bitlen ?n - 1))" by simp
  also have "\<dots> \<le> of_int ?n" using lo by (simp only: of_int_le_iff)
  also have "\<dots> \<le> x" by simp
  finally have A: "2 powi ilog2 x \<le> x" by (simp add: e)
  have "?n + 1 \<le> 2 ^ nat (bitlen ?n)" using hi by simp
  then have "(of_int (?n + 1) :: rat) \<le> of_int (2 ^ nat (bitlen ?n))" by (simp only: of_int_le_iff)
  moreover have "x < of_int (?n + 1)" by linarith
  ultimately have "x < of_int (2 ^ nat (bitlen ?n))" by linarith
  also have "\<dots> = 2 powi (bitlen ?n)" using b1 by (simp add: power_int_nonneg_exp)
  finally have B: "x < 2 powi (ilog2 x + 1)" by (simp add: e)
  from A B show ?thesis ..
qed

lemma ilog2_lt1:
  assumes "0 < x" "x < 1"
  shows "2 powi ilog2 x \<le> x \<and> x < 2 powi (ilog2 x + 1)"
proof -
  let ?y = "1 / x"
  let ?m = "\<lceil>?y\<rceil> - 1"
  let ?k = "bitlen ?m"
  from assms have y1: "1 < ?y" by simp
  then have m: "0 < ?m" by linarith
  from bitlen_bounds [OF m] have lo: "2 ^ nat (?k - 1) \<le> ?m" and hi: "?m < 2 ^ nat ?k"
    by auto
  from m have k1: "1 \<le> ?k" by (simp add: bitlen_alt_def)
  have e: "ilog2 x = - ?k" using assms by (simp add: ilog2_def)
  have "?y \<le> of_int \<lceil>?y\<rceil>" by simp
  also have "\<lceil>?y\<rceil> \<le> 2 ^ nat ?k" using hi by simp
  then have "(of_int \<lceil>?y\<rceil> :: rat) \<le> of_int (2 ^ nat ?k)" by (simp only: of_int_le_iff)
  finally have "?y \<le> 2 ^ nat ?k" by simp
  also have "\<dots> = 2 powi ?k" using k1 by (simp add: power_int_nonneg_exp)
  finally have yle: "?y \<le> 2 powi ?k" .
  have "(of_int (2 ^ nat (?k - 1)) :: rat) \<le> of_int ?m" using lo by (simp only: of_int_le_iff)
  moreover have "of_int ?m < ?y" by linarith
  ultimately have "(2::rat) ^ nat (?k - 1) < ?y" by simp
  moreover have "(2::rat) ^ nat (?k - 1) = 2 powi (?k - 1)"
    using k1 by (simp add: power_int_nonneg_exp)
  ultimately have ygt: "2 powi (?k - 1) < ?y" by simp
  have p: "0 < (2::rat) powi ?k" "0 < (2::rat) powi (?k - 1)" by simp_all
  from yle assms(1) p have "1 / (2 powi ?k) \<le> x"
    by (simp add: field_simps)
  then have A: "2 powi (- ?k) \<le> x" by (simp add: power_int_minus_divide)
  from ygt assms(1) p have "x < 1 / (2 powi (?k - 1))"
    by (simp add: field_simps)
  moreover have "1 / (2 powi (?k - 1)) = (2::rat) powi (- (?k - 1))"
    by (simp only: power_int_minus_divide)
  moreover have "- (?k - 1) = - ?k + 1" by simp
  ultimately have B: "x < 2 powi (- ?k + 1)" by simp
  from A B e show ?thesis by simp
qed

lemma ilog2_bounds:
  "0 < x \<Longrightarrow> 2 powi ilog2 x \<le> x \<and> x < 2 powi (ilog2 x + 1)"
  using ilog2_ge1 [of x] ilog2_lt1 [of x] by (cases "1 \<le> x") auto

lemma powi2_less_imp: "(2::rat) powi a < 2 powi b \<Longrightarrow> a < b"
  by (rule ccontr) (use power_int_increasing [of b a "2::rat"] in auto)

lemma ilog2_unique:
  assumes "2 powi e \<le> x" "x < 2 powi (e + 1)"
  shows "ilog2 x = e"
proof -
  have pos: "0 < x" using assms(1) zero_less_power_int [of "2::rat" e] by linarith
  from ilog2_bounds [OF pos] have l: "2 powi ilog2 x \<le> x" and h: "x < 2 powi (ilog2 x + 1)"
    by auto
  from assms(1) h have "(2::rat) powi e < 2 powi (ilog2 x + 1)" by linarith
  then have 1: "e < ilog2 x + 1" by (rule powi2_less_imp)
  from l assms(2) have "(2::rat) powi ilog2 x < 2 powi (e + 1)" by linarith
  then have 2: "ilog2 x < e + 1" by (rule powi2_less_imp)
  from 1 2 show ?thesis by simp
qed

lemma ilog2_mono: "0 < x \<Longrightarrow> x \<le> y \<Longrightarrow> ilog2 x \<le> ilog2 y"
proof -
  assume x: "0 < x" and xy: "x \<le> y"
  then have y: "0 < y" by simp
  from ilog2_bounds [OF x] ilog2_bounds [OF y] xy
  have "(2::rat) powi ilog2 x < 2 powi (ilog2 y + 1)" by linarith
  then have "ilog2 x < ilog2 y + 1" by (rule powi2_less_imp)
  then show ?thesis by simp
qed

text \<open>Rounding to the nearest integer, ties to even.\<close>

lemma rhe_cases:
  "round_half_even y = \<lfloor>y\<rfloor> \<or> round_half_even y = \<lfloor>y\<rfloor> + 1"
  by (simp add: round_half_even_def Let_def)

lemma rhe_of_int [simp]: "round_half_even (of_int n) = n"
  by (simp add: round_half_even_def)

lemma rhe_lower: "y - 1 / 2 \<le> of_int (round_half_even y)"
  unfolding round_half_even_def Let_def by (auto; linarith)

lemma rhe_upper: "of_int (round_half_even y) \<le> y + 1 / 2"
  unfolding round_half_even_def Let_def by (auto; linarith)

lemma rhe_mono: "y \<le> z \<Longrightarrow> round_half_even y \<le> round_half_even z"
proof -
  assume yz: "y \<le> z"
  then have f: "\<lfloor>y\<rfloor> \<le> \<lfloor>z\<rfloor>" by (rule floor_mono)
  show ?thesis
  proof (cases "\<lfloor>y\<rfloor> = \<lfloor>z\<rfloor>")
    case True
    with yz show ?thesis
      unfolding round_half_even_def Let_def by auto
  next
    case False
    with f have "\<lfloor>y\<rfloor> + 1 \<le> \<lfloor>z\<rfloor>" by simp
    moreover have "round_half_even y \<le> \<lfloor>y\<rfloor> + 1" using rhe_cases [of y] by auto
    moreover have "\<lfloor>z\<rfloor> \<le> round_half_even z" using rhe_cases [of z] by auto
    ultimately show ?thesis by linarith
  qed
qed

lemma rhe_ge: "of_int n \<le> y \<Longrightarrow> n \<le> round_half_even y"
  using rhe_mono [of "of_int n" y] by simp

lemma rhe_le: "y \<le> of_int n \<Longrightarrow> round_half_even y \<le> n"
  using rhe_mono [of y "of_int n"] by simp

lemma rhe_minus: "round_half_even (- y) = - round_half_even y"
proof (cases "y = of_int \<lfloor>y\<rfloor>")
  case True
  then obtain n where n: "y = of_int n" ..
  then have "- y = of_int (- n)" by simp
  with n show ?thesis by (simp only: rhe_of_int)
next
  case False
  with of_int_floor_le [of y] have lt: "of_int \<lfloor>y\<rfloor> < y" by (metis less_le)
  have fl: "\<lfloor>- y\<rfloor> = - \<lfloor>y\<rfloor> - 1"
  proof (rule floor_unique)
    have "y < of_int \<lfloor>y\<rfloor> + 1" by linarith
    then show "of_int (- \<lfloor>y\<rfloor> - 1) \<le> - y" by simp
    from lt show "- y < of_int (- \<lfloor>y\<rfloor> - 1) + 1" by simp
  qed
  have ev: "even (- \<lfloor>y\<rfloor> - 1) \<longleftrightarrow> odd \<lfloor>y\<rfloor>" by simp
  show ?thesis
    unfolding round_half_even_def Let_def fl ev
    by (auto simp: algebra_simps)
qed

lemma powi_52: "(2::rat) powi e = 2 ^ 52 * 2 powi (e - 52)"
proof -
  have "(2::rat) powi (52 + (e - 52)) = 2 powi 52 * 2 powi (e - 52)"
    by (rule power_int_add) simp
  moreover have "52 + (e - 52) = e" by simp
  ultimately show ?thesis by simp
qed

lemma powi_53: "(2::rat) powi (e + 1) = 2 ^ 53 * 2 powi (e - 52)"
proof -
  have "(2::rat) powi (53 + (e - 52)) = 2 powi 53 * 2 powi (e - 52)"
    by (rule power_int_add) simp
  moreover have "53 + (e - 52) = e + 1" by simp
  ultimately show ?thesis by (simp only: power_int_numeral)
qed

lemma float_round_pos:
  assumes "0 < x"
  shows "float_round x = of_int (round_half_even (x / 2 powi (ilog2 x - 52))) * 2 powi (ilog2 x - 52)"
  using assms by (simp add: float_round_def Let_def)

lemma scaled_bounds:
  assumes "0 < x"
  shows "2 ^ 52 \<le> x / 2 powi (ilog2 x - 52) \<and> x / 2 powi (ilog2 x - 52) \<le> 2 ^ 53"
proof -
  let ?e = "ilog2 x"
  let ?u = "(2::rat) powi (?e - 52)"
  have u: "0 < ?u" by simp
  have a: "2 powi ?e = 2 ^ 52 * ?u" by (rule powi_52)
  have b: "2 powi (?e + 1) = 2 ^ 53 * ?u" by (rule powi_53)
  from ilog2_bounds [OF assms] have "2 powi ?e \<le> x" "x < 2 powi (?e + 1)" by simp_all
  then have "2 ^ 52 * ?u \<le> x" "x < 2 ^ 53 * ?u" by (simp_all only: a b)
  with u show ?thesis by (simp add: field_simps)
qed

lemma float_round_bounds:
  assumes "0 < x"
  shows "2 powi ilog2 x \<le> float_round x \<and> float_round x \<le> 2 powi (ilog2 x + 1)"
proof -
  let ?e = "ilog2 x"
  let ?u = "(2::rat) powi (?e - 52)"
  let ?r = "round_half_even (x / ?u)"
  have u: "0 < ?u" by simp
  have a: "2 powi ?e = 2 ^ 52 * ?u" by (rule powi_52)
  have b: "2 powi (?e + 1) = 2 ^ 53 * ?u" by (rule powi_53)
  from scaled_bounds [OF assms] have "of_int (2 ^ 52) \<le> x / ?u" "x / ?u \<le> of_int (2 ^ 53)"
    by simp_all
  then have "2 ^ 52 \<le> ?r" "?r \<le> 2 ^ 53" by (auto intro: rhe_ge rhe_le)
  then have "(of_int (2 ^ 52) :: rat) \<le> of_int ?r" "(of_int ?r :: rat) \<le> of_int (2 ^ 53)"
    by (simp_all only: of_int_le_iff)
  then have "2 ^ 52 * ?u \<le> of_int ?r * ?u" "of_int ?r * ?u \<le> 2 ^ 53 * ?u"
    using u by (simp_all add: mult_right_mono)
  then show ?thesis by (simp only: a b float_round_pos [OF assms])
qed

lemma float_round_minus: "float_round (- x) = - float_round x"
  by (simp add: float_round_def Let_def rhe_minus)

lemma float_round_pos_gt: "0 < x \<Longrightarrow> 0 < float_round x"
  using float_round_bounds [of x] zero_less_power_int [of "2::rat" "ilog2 x"] by linarith

lemma float_round_neg_lt: "x < 0 \<Longrightarrow> float_round x < 0"
  using float_round_pos_gt [of "- x"] by (simp add: float_round_minus)

lemma float_round_mono_pos:
  assumes "0 < x" "x \<le> y"
  shows "float_round x \<le> float_round y"
proof -
  from assms have y: "0 < y" by simp
  from ilog2_mono [OF assms] have e: "ilog2 x \<le> ilog2 y" .
  show ?thesis
  proof (cases "ilog2 x = ilog2 y")
    case True
    let ?u = "(2::rat) powi (ilog2 y - 52)"
    have u: "0 < ?u" by simp
    from assms(2) u have "x / ?u \<le> y / ?u" by (simp add: divide_right_mono)
    then have "round_half_even (x / ?u) \<le> round_half_even (y / ?u)" by (rule rhe_mono)
    then have "(of_int (round_half_even (x / ?u)) :: rat) \<le> of_int (round_half_even (y / ?u))"
      by (simp only: of_int_le_iff)
    then have "of_int (round_half_even (x / ?u)) * ?u \<le> of_int (round_half_even (y / ?u)) * ?u"
      using u by (simp add: mult_right_mono)
    with float_round_pos [OF assms(1)] float_round_pos [OF y] True show ?thesis by simp
  next
    case False
    with e have "ilog2 x + 1 \<le> ilog2 y" by simp
    then have "(2::rat) powi (ilog2 x + 1) \<le> 2 powi ilog2 y"
      by (simp add: power_int_increasing)
    with float_round_bounds [OF assms(1)] float_round_bounds [OF y] show ?thesis by linarith
  qed
qed

lemma float_round_zero [simp]: "float_round 0 = 0"
  by (simp add: float_round_def)

lemma float_round_mono: "x \<le> y \<Longrightarrow> float_round x \<le> float_round y"
proof -
  assume xy: "x \<le> y"
  consider "0 < x" | "x = 0" | "x < 0" "0 \<le> y" | "x < 0" "y < 0" by linarith
  then show ?thesis
  proof cases
    case 1
    from 1 xy show ?thesis by (rule float_round_mono_pos)
  next
    case 2
    show ?thesis
    proof (cases "y = 0")
      case True
      with 2 show ?thesis by simp
    next
      case False
      with 2 xy have "0 < y" by simp
      from float_round_pos_gt [OF this] 2 show ?thesis by simp
    qed
  next
    case 3
    from float_round_neg_lt [OF 3(1)] have a: "float_round x < 0" .
    have "0 \<le> float_round y"
    proof (cases "y = 0")
      case True
      then show ?thesis by simp
    next
      case False
      with 3 have "0 < y" by simp
      from float_round_pos_gt [OF this] show ?thesis by simp
    qed
    with a show ?thesis by simp
  next
    case 4
    then have "0 < - y" "- y \<le> - x" using xy by simp_all
    from float_round_mono_pos [OF this] show ?thesis by (simp add: float_round_minus)
  qed
qed

text \<open>Representable numbers are fixed.\<close>

lemma float_round_exact_pos:
  assumes n: "0 < n" "n < 2 ^ 53"
  shows "float_round (of_int n * 2 powi k) = of_int n * 2 powi k"
proof -
  let ?x = "of_int n * (2::rat) powi k"
  have x: "0 < ?x" using n by simp
  let ?e = "ilog2 ?x"
  from ilog2_bounds [OF x] have "2 powi ?e \<le> ?x" by simp
  also have "?x < 2 ^ 53 * 2 powi k"
  proof -
    have "(of_int n :: rat) < of_int (2 ^ 53)" using n(2) by (simp only: of_int_less_iff)
    then show ?thesis by (simp add: mult_strict_right_mono)
  qed
  also have "\<dots> = 2 powi (53 + k)" using power_int_add [of "2::rat" 53 k] by simp
  finally have "?e < 53 + k" by (rule powi2_less_imp)
  then have d: "0 \<le> k - (?e - 52)" by simp
  have "2 powi k = (2::rat) powi (k - (?e - 52)) * 2 powi (?e - 52)"
    using power_int_add [of "2::rat" "k - (?e - 52)" "?e - 52"] by simp
  moreover have "(2::rat) powi (?e - 52) \<noteq> 0" by simp
  ultimately have "?x / 2 powi (?e - 52) = of_int n * 2 powi (k - (?e - 52))"
    by (simp add: field_simps)
  also have "\<dots> = of_int n * 2 ^ nat (k - (?e - 52))"
    using d by (simp add: power_int_nonneg_exp)
  also have "\<dots> = of_int (n * 2 ^ nat (k - (?e - 52)))" by simp
  finally have "round_half_even (?x / 2 powi (?e - 52)) = n * 2 ^ nat (k - (?e - 52))"
    by (simp only: rhe_of_int)
  then have "float_round ?x = of_int (n * 2 ^ nat (k - (?e - 52))) * 2 powi (?e - 52)"
    using float_round_pos [OF x] by simp
  also have "\<dots> = of_int n * (2 powi (k - (?e - 52)) * 2 powi (?e - 52))"
    using d by (simp add: power_int_nonneg_exp)
  also have "\<dots> = ?x"
    using power_int_add [of "2::rat" "k - (?e - 52)" "?e - 52"] by simp
  finally show ?thesis .
qed

lemma float_round_exact:
  assumes "\<bar>n\<bar> < 2 ^ 53"
  shows "float_round (of_int n * 2 powi k) = of_int n * 2 powi k"
proof -
  consider "0 < n" | "n = 0" | "n < 0" by linarith
  then show ?thesis
  proof cases
    case 1
    with assms show ?thesis by (intro float_round_exact_pos) auto
  next
    case 2
    then show ?thesis by simp
  next
    case 3
    with assms have "0 < - n" "- n < 2 ^ 53" by auto
    from float_round_exact_pos [OF this, of k] show ?thesis
      using float_round_minus [of "of_int n * 2 powi k"] by simp
  qed
qed

lemma float_round_int: "\<bar>n\<bar> < 2 ^ 53 \<Longrightarrow> float_round (of_int n) = of_int n"
  using float_round_exact [of n 0] by simp

section \<open>The age of a record\<close>

text \<open>
  The age in minutes is monotone in the difference, exact at whole minutes, and
  negative for a negative difference.
\<close>

lemma age_minutes_mono: "td \<le> td' \<Longrightarrow> age_minutes td \<le> age_minutes td'"
proof -
  assume "td \<le> td'"
  then have "(of_int td :: rat) / 1000000 \<le> of_int td' / 1000000" by simp
  then have "total_seconds td \<le> total_seconds td'"
    unfolding total_seconds_def by (rule float_round_mono)
  then have "total_seconds td / 60 \<le> total_seconds td' / 60" by simp
  then show ?thesis unfolding age_minutes_def by (rule float_round_mono)
qed

lemma age_minutes_whole:
  assumes "\<bar>k\<bar> < 2 ^ 46"
  shows "age_minutes (k * 60000000) = of_int k"
proof -
  from assms have a: "\<bar>60 * k\<bar> < 2 ^ 53" by simp
  from assms have b: "\<bar>k\<bar> < 2 ^ 53" by simp
  have "(of_int (k * 60000000) :: rat) / 1000000 = of_int (60 * k)" by simp
  then have "total_seconds (k * 60000000) = of_int (60 * k)"
    unfolding total_seconds_def using float_round_int [OF a] by simp
  then have "total_seconds (k * 60000000) / 60 = of_int k" by simp
  then show ?thesis unfolding age_minutes_def using float_round_int [OF b] by simp
qed

lemma age_minutes_neg: "td < 0 \<Longrightarrow> age_minutes td < 0"
proof -
  assume "td < 0"
  then have "(of_int td :: rat) / 1000000 < 0" by simp
  then have "total_seconds td < 0" unfolding total_seconds_def by (rule float_round_neg_lt)
  then have "total_seconds td / 60 < 0" by simp
  then show ?thesis unfolding age_minutes_def by (rule float_round_neg_lt)
qed

lemma age_minutes_within:
  assumes "\<bar>m\<bar> < 2 ^ 46" and "td \<le> m * 60000000"
  shows "age_minutes td \<le> of_int m"
  using age_minutes_mono [OF assms(2)] age_minutes_whole [OF assms(1)] by simp

text \<open>
  A difference of one microsecond above a threshold of less than \<open>2 ^ 27\<close> minutes
  survives both roundings: \<open>60 * m + 2 ^ - 20\<close> and \<open>m + 2 ^ - 26\<close> are doubles below
  the two quotients.
\<close>

lemma age_minutes_beyond:
  assumes m: "\<bar>m\<bar> < 2 ^ 27" and td: "m * 60000000 < td"
  shows "of_int m < age_minutes td"
proof -
  let ?a = "of_int (60 * m * 2 ^ 20 + 1) * (2::rat) powi (- 20)"
  let ?b = "of_int (m * 2 ^ 26 + 1) * (2::rat) powi (- 26)"
  have p20: "(2::rat) powi (- 20) = 1 / 2 ^ 20" by (simp add: power_int_minus_divide)
  have p26: "(2::rat) powi (- 26) = 1 / 2 ^ 26" by (simp add: power_int_minus_divide)
  have a: "?a = of_int (60 * m) + 1 / 2 ^ 20" by (simp add: p20 field_simps)
  have b: "?b = of_int m + 1 / 2 ^ 26" by (simp add: p26 field_simps)
  from m have na: "\<bar>60 * m * 2 ^ 20 + 1\<bar> < 2 ^ 53" by simp
  from m have nb: "\<bar>m * 2 ^ 26 + 1\<bar> < 2 ^ 53" by simp
  from td have "m * 60000000 + 1 \<le> td" by simp
  then have "(of_int (m * 60000000 + 1) :: rat) \<le> of_int td" by (simp only: of_int_le_iff)
  then have "of_int (60 * m) + 1 / 1000000 \<le> (of_int td :: rat) / 1000000" by simp
  moreover have "(1::rat) / 2 ^ 20 \<le> 1 / 1000000" by simp
  ultimately have "?a \<le> of_int td / 1000000" unfolding a by linarith
  then have "float_round ?a \<le> total_seconds td"
    unfolding total_seconds_def by (rule float_round_mono)
  then have sec: "?a \<le> total_seconds td" by (simp only: float_round_exact [OF na])
  have "?b \<le> ?a / 60" unfolding a b by (simp add: field_simps)
  also from sec have "?a / 60 \<le> total_seconds td / 60" by simp
  finally have "float_round ?b \<le> age_minutes td"
    unfolding age_minutes_def by (rule float_round_mono)
  then have "?b \<le> age_minutes td" by (simp only: float_round_exact [OF nb])
  moreover have "of_int m < ?b" unfolding b by simp
  ultimately show ?thesis by linarith
qed

lemma age_minutes_le:
  "\<bar>m\<bar> < 2 ^ 27 \<Longrightarrow> age_minutes td \<le> of_int m \<longleftrightarrow> td \<le> m * 60000000"
proof -
  assume m: "\<bar>m\<bar> < 2 ^ 27"
  then have m': "\<bar>m\<bar> < 2 ^ 46" by simp
  show ?thesis
  proof
    assume "age_minutes td \<le> of_int m"
    with age_minutes_beyond [OF m, of td] show "td \<le> m * 60000000" by force
  next
    assume "td \<le> m * 60000000"
    with m' show "age_minutes td \<le> of_int m" by (rule age_minutes_within)
  qed
qed

text \<open>
  At 300000000 minutes the roundings lose the microsecond: the difference is above
  the threshold and its age in minutes is the threshold.
\<close>

lemma age_minutes_rounds_down:
  "age_minutes 18000000000000001 = 300000000"
  unfolding age_minutes_def total_seconds_def by code_simp

section \<open>Dictionaries\<close>

lemma dict_get_dict_set:
  "dict_get (dict_set d k v) k' = (if k' = k then Some v else dict_get d k')"
  by (induction d) (auto simp: dict_get_def)

lemma keys_dict_set:
  "map fst (dict_set d k v) = (if k \<in> fst ` set d then map fst d else map fst d @ [k])"
  by (induction d) force+

lemma distinct_dict_set: "distinct (map fst d) \<Longrightarrow> distinct (map fst (dict_set d k v))"
  by (simp add: keys_dict_set)

lemma dict_get_Some_iff:
  "distinct (map fst d) \<Longrightarrow> dict_get d k = Some v \<longleftrightarrow> (k, v) \<in> set d"
  by (simp add: dict_get_def)

section \<open>The store is only read by the fetch\<close>

lemma redis_get_frame:
  "redis_get w k = (r, w1) \<Longrightarrow>
   keyspace w1 = keyspace w \<and> expiry w1 = expiry w \<and> console w1 = console w"
  by (auto simp: redis_get_def next_fault_def
           split: list.splits option.splits rvalue.splits prod.splits)

lemma get_all_agents_try_frame:
  "get_all_agents_try lib w = (r, w1) \<Longrightarrow>
   keyspace w1 = keyspace w \<and> expiry w1 = expiry w \<and> console w1 = console w"
  unfolding get_all_agents_try_def
  by (auto split: prod.splits sum.splits option.splits if_splits dest: redis_get_frame)

section \<open>Decoding\<close>

lemma decode_items_fails:
  "(k, v) \<in> set kvs \<Longrightarrow> decode_value lib v = Inl e \<Longrightarrow>
   \<exists>e'. decode_items lib kvs acc = Inl e'"
  by (induction kvs arbitrary: acc) (auto split: sum.splits)

lemma decode_items_distinct:
  "decode_items lib kvs acc = Inr r \<Longrightarrow> distinct (map fst acc) \<Longrightarrow> distinct (map fst r)"
  by (induction kvs arbitrary: acc) (auto split: sum.splits simp: distinct_dict_set)

lemma decode_items_get:
  "decode_items lib kvs acc = Inr r \<Longrightarrow> distinct (map fst kvs) \<Longrightarrow>
   dict_get r k =
     (case map_of kvs k of
        Some v \<Rightarrow> (case decode_value lib v of Inr x \<Rightarrow> Some x | Inl e \<Rightarrow> None)
      | None \<Rightarrow> dict_get acc k)"
proof (induction kvs arbitrary: acc)
  case Nil
  then show ?case by simp
next
  case (Cons kv kvs)
  obtain k0 v0 where kv: "kv = (k0, v0)" by (cases kv)
  from Cons.prems(1) kv obtain x where
    x: "decode_value lib v0 = Inr x" and
    rest: "decode_items lib kvs (dict_set acc k0 x) = Inr r"
    by (auto split: sum.splits)
  from Cons.prems(2) kv have d: "distinct (map fst kvs)" and nk: "k0 \<notin> fst ` set kvs"
    by auto
  have ih: "dict_get r k =
     (case map_of kvs k of
        Some v \<Rightarrow> (case decode_value lib v of Inr x \<Rightarrow> Some x | Inl e \<Rightarrow> None)
      | None \<Rightarrow> dict_get (dict_set acc k0 x) k)"
    using Cons.IH [OF rest d] .
  show ?case
  proof (cases "k = k0")
    case True
    with nk have "map_of kvs k = None" by (simp add: map_of_eq_None_iff)
    with ih True kv x show ?thesis by (simp add: dict_get_dict_set)
  next
    case False
    with ih kv show ?thesis by (simp add: dict_get_dict_set split: option.splits)
  qed
qed

lemma decode_items_total:
  "list_all (\<lambda>kv. \<not> isl (decode_value lib (snd kv))) kvs \<Longrightarrow>
   \<exists>r. decode_items lib kvs acc = Inr r"
  by (induction kvs arbitrary: acc) (auto split: sum.splits)

text \<open>What the fetch returns is the decoded blob, or the empty dict.\<close>

lemma get_all_agents_Inr:
  "get_all_agents lib w = (Inr S, w1) \<Longrightarrow>
   get_all_agents_try lib w = (Inr (Some S), w1) \<or>
   S = [] \<and> (get_all_agents_try lib w = (Inr None, w1) \<or>
            (\<exists>e w0. get_all_agents_try lib w = (Inl e, w0)))"
  unfolding get_all_agents_def console_print_def
  by (auto split: prod.splits sum.splits option.splits)

lemma get_all_agents_try_distinct:
  "get_all_agents_try lib w = (Inr (Some S), w1) \<Longrightarrow> distinct (map fst S)"
  unfolding get_all_agents_try_def
  by (auto split: prod.splits sum.splits option.splits if_splits dest: decode_items_distinct)

lemma get_all_agents_distinct:
  "get_all_agents lib w = (Inr S, w1) \<Longrightarrow> distinct (map fst S)"
  by (auto dest!: get_all_agents_Inr dest: get_all_agents_try_distinct)

text \<open>A fetch that returns leaves the store as it was; it may have printed.\<close>

lemma get_all_agents_frame:
  "get_all_agents lib w = (r, w1) \<Longrightarrow> keyspace w1 = keyspace w \<and> expiry w1 = expiry w"
  unfolding get_all_agents_def console_print_def
  by (auto split: prod.splits sum.splits option.splits dest: get_all_agents_try_frame)

section \<open>The filter loop\<close>

lemma loop_sound:
  "get_active_agents_loop now m S acc = Inr A \<Longrightarrow> dict_get A l = Some e \<Longrightarrow>
   dict_get acc l = Some e \<or>
   (\<exists>a td. e = Agent a \<and> (l, e) \<in> set S \<and>
            sub_datetime now (last_update a) = Inr td \<and> age_minutes td \<le> of_int m)"
proof (induction now m S acc rule: get_active_agents_loop.induct)
  case (1 now m acc)
  then show ?case by simp
next
  case (2 now m lbl v rest acc)
  then show ?case by auto
next
  case (3 now m lbl agent rest acc)
  from "3.prems"(1) obtain td where td: "sub_datetime now (last_update agent) = Inr td"
    by (auto split: sum.splits)
  show ?case
  proof (cases "age_minutes td \<le> of_int m")
    case True
    with "3.prems" td
    have "get_active_agents_loop now m rest (dict_set acc lbl (Agent agent)) = Inr A"
      by simp
    from "3.IH"(1) [OF td True this "3.prems"(2)] td True
    show ?thesis by (auto simp: dict_get_dict_set split: if_splits)
  next
    case False
    with "3.prems" td have "get_active_agents_loop now m rest acc = Inr A" by simp
    from "3.IH"(2) [OF td False this "3.prems"(2)] show ?thesis by auto
  qed
qed

lemma loop_other:
  "get_active_agents_loop now m S acc = Inr A \<Longrightarrow> l \<notin> fst ` set S \<Longrightarrow>
   dict_get A l = dict_get acc l"
proof (induction now m S acc rule: get_active_agents_loop.induct)
  case (1 now m acc)
  then show ?case by simp
next
  case (2 now m lbl v rest acc)
  then show ?case by auto
next
  case (3 now m lbl agent rest acc)
  then show ?case
    by (auto split: sum.splits if_splits simp: dict_get_dict_set)
qed

lemma loop_complete:
  "get_active_agents_loop now m S acc = Inr A \<Longrightarrow> distinct (map fst S) \<Longrightarrow>
   (l, Agent a) \<in> set S \<Longrightarrow> sub_datetime now (last_update a) = Inr td \<Longrightarrow>
   age_minutes td \<le> of_int m \<Longrightarrow> dict_get A l = Some (Agent a)"
proof (induction now m S acc rule: get_active_agents_loop.induct)
  case (1 now m acc)
  then show ?case by simp
next
  case (2 now m lbl v rest acc)
  then show ?case by auto
next
  case (3 now m lbl agent rest acc)
  show ?case
  proof (cases "(l, Agent a) \<in> set rest")
    case True
    with "3.prems" "3.IH" show ?thesis
      by (auto split: sum.splits if_splits)
  next
    case False
    with "3.prems" have eq: "lbl = l" "agent = a" and nl: "l \<notin> fst ` set rest" by auto
    from "3.prems" eq
    have "get_active_agents_loop now m rest (dict_set acc l (Agent a)) = Inr A" by simp
    from loop_other [OF this nl] show ?thesis by (simp add: dict_get_dict_set)
  qed
qed

lemma loop_total:
  "list_all (\<lambda>kv. case snd kv of
                     Agent a \<Rightarrow> \<not> isl (sub_datetime now (last_update a))
                   | Raw v \<Rightarrow> True) S \<Longrightarrow>
   \<exists>A. get_active_agents_loop now m S acc = Inr A"
  by (induction now m S acc rule: get_active_agents_loop.induct)
     (auto split: sum.splits)

lemma sub_datetime_naive:
  "sub_datetime (Datetime clock None) v = Inr td \<longleftrightarrow>
   (\<exists>t. v = PDatetime (Datetime t None) \<and> td = clock - t)"
proof (cases v)
  case (PDatetime d)
  then show ?thesis
    by (cases d) (auto simp: sub_datetime_def split: option.splits)
qed (simp_all add: sub_datetime_def)

text \<open>
  Whenever the filter returns, every entry of the active set is an entry of the
  snapshot under the same label, and it is a record with a naive \<^verbatim>\<open>last_update\<close>
  whose age in minutes is at most the threshold.
\<close>

lemma get_active_agents_sound:
  assumes all: "get_all_agents lib w = (Inr S, w1)"
    and act: "get_active_agents lib clock max_age w = (Inr A, w2)"
    and get: "dict_get A l = Some e"
  shows "dict_get S l = Some e \<and>
         (\<exists>a t. e = Agent a \<and> last_update a = PDatetime (Datetime t None) \<and>
                 age_minutes (clock - t) \<le>
                   of_int (case max_age of None \<Rightarrow> 10 | Some m \<Rightarrow> m))"
proof -
  let ?m = "case max_age of None \<Rightarrow> 10 | Some m \<Rightarrow> m"
  from all act have loop: "get_active_agents_loop (Datetime clock None) ?m S [] = Inr A"
    by (simp add: get_active_agents_def)
  from get_all_agents_distinct [OF all] have d: "distinct (map fst S)" .
  from loop_sound [OF loop get] obtain a td where
    e: "e = Agent a" and mem: "(l, e) \<in> set S" and
    sub: "sub_datetime (Datetime clock None) (last_update a) = Inr td" and
    age: "age_minutes td \<le> of_int ?m"
    by (auto simp: dict_get_def)
  from sub obtain t where "last_update a = PDatetime (Datetime t None)" "td = clock - t"
    by (auto simp: sub_datetime_naive)
  with e mem d age show ?thesis
    by (auto simp: dict_get_Some_iff)
qed

text \<open>The filter returns when every record carries a naive datetime.\<close>

lemma get_active_agents_returns:
  assumes all: "get_all_agents lib w = (Inr S, w1)"
    and naive: "\<forall>kv \<in> set S. \<forall>a. snd kv = Agent a \<longrightarrow>
                  (\<exists>t. last_update a = PDatetime (Datetime t None))"
  shows "\<exists>A. get_active_agents lib clock max_age w = (Inr A, w1)"
proof -
  have "list_all (\<lambda>kv. case snd kv of
                     Agent a \<Rightarrow> \<not> isl (sub_datetime (Datetime clock None) (last_update a))
                   | Raw v \<Rightarrow> True) S"
    unfolding list_all_iff
  proof
    fix kv assume kv: "kv \<in> set S"
    show "case snd kv of
            Agent a \<Rightarrow> \<not> isl (sub_datetime (Datetime clock None) (last_update a))
          | Raw v \<Rightarrow> True"
    proof (cases "snd kv")
      case (Agent a)
      with naive kv obtain t where "last_update a = PDatetime (Datetime t None)" by blast
      with Agent show ?thesis by (simp add: sub_datetime_def)
    next
      case (Raw v)
      then show ?thesis by simp
    qed
  qed
  from loop_total [OF this] all show ?thesis
    by (auto simp: get_active_agents_def)
qed

section \<open>Evaluation\<close>

lemmas fetch_defs =
  get_all_agents_def get_all_agents_try_def redis_get_def next_fault_def items_def
  decode_value_def convert_last_update_def AgentInfo_init_def AgentInfo_fields_def
  unexpected_keys_def missing_fields_def missing_message_def decimal_def quoted_def
  kwarg_def dict_get_def console_print_def read_error_line_def

lemmas example_defs =
  example_lib_def example_loads_def example_fromisoformat_def example_fields_def
  example_markup_def store_with_def store_down_def
  blob_aware_def blob_epoch_def blob_old_def blob_skew_def blob_partial_def
  blob_wrongtype_def blob_markup_def blob_raw_abort_def blob_fleet_def
  blob_single_def single_def

lemma store_with_get:
  "blob \<noteq> [] \<Longrightarrow> redis_get (store_with blob) ''subctl:agents'' = (Inr (Some blob), store_with blob)"
  by (simp add: redis_get_def next_fault_def store_with_def)

section \<open>The example snapshot\<close>

lemma fleet_snapshot:
  "get_all_agents example_lib (store_with blob_fleet) = (Inr fleet, store_with blob_fleet)"
  by (simp add: fetch_defs example_defs example_agent_def fleet_def)

section \<open>The two fetchers\<close>

text \<open>
  The \<^verbatim>\<open>try\<close> blocks of the two files are the same text, and the cache
  \<^verbatim>\<open>self.agents\<close> is empty after \<^verbatim>\<open>__init__\<close> and never assigned: whenever the fetch
  of \<^verbatim>\<open>src/subctl/orchestrator.py\<close> returns a mapping, the fetch of \<^verbatim>\<open>src/subctl.py\<close>
  returns the same mapping and leaves the store in the same state.
\<close>

lemma get_all_agents_variants_agree_on_return:
  "get_all_agents lib w = (Inr m, w1) \<Longrightarrow>
   fst (script_get_all_agents lib script_init w) = m \<and>
   keyspace (snd (script_get_all_agents lib script_init w)) = keyspace w1 \<and>
   expiry (snd (script_get_all_agents lib script_init w)) = expiry w1 \<and>
   faults (snd (script_get_all_agents lib script_init w)) = faults w1"
  unfolding script_get_all_agents_def get_all_agents_def script_init_def console_print_def
  by (auto split: prod.splits sum.splits option.splits)

text \<open>
  Claim C10. The two implementations of \<^verbatim>\<open>get_all_agents\<close> do not return equal
  mappings for every failure. The blob holds one record whose \<^verbatim>\<open>last_update\<close> is the
  text \<^verbatim>\<open>[/x]\<close>: the parser refuses it with a message that quotes the text, the fetch
  of \<^verbatim>\<open>src/subctl.py\<close> on a freshly constructed orchestrator returns the empty
  mapping, and the handler of \<^verbatim>\<open>src/subctl/orchestrator.py\<close> prints the message as
  markup, which raises \<^verbatim>\<open>MarkupError\<close> out of the method: no mapping is returned.
\<close>

theorem get_all_agents_variants_differ:
  "script_get_all_agents example_lib script_init (store_with blob_markup) =
     ([], store_with blob_markup) \<and>
   get_all_agents example_lib (store_with blob_markup) =
     (Inl (Exc MarkupError
             (''closing tag '' @ quoted ''[/x]'' @ '' at position 58 doesn'' @
              [CHR 0x27] @ ''t match any open tag'')),
      store_with blob_markup)"
  by (simp add: script_get_all_agents_def script_init_def fetch_defs example_defs)

section \<open>Failures of the fetch\<close>

text \<open>
  In \<^verbatim>\<open>src/subctl/orchestrator.py\<close> an exception of the \<^verbatim>\<open>try\<close> block whose line the
  console accepts gives the empty mapping and exactly one more line on the console; a
  line that the console refuses gives the \<^verbatim>\<open>MarkupError\<close> and no mapping. A fetch
  without an exception prints nothing.
\<close>

lemma get_all_agents_failure_reported:
  "get_all_agents_try lib w = (Inl e, w1) \<Longrightarrow> markup_error lib (read_error_line e) = None \<Longrightarrow>
   get_all_agents lib w = (Inr [], w1\<lparr>console := console w @ [read_error_line e]\<rparr>)"
  by (auto simp: get_all_agents_def console_print_def dest: get_all_agents_try_frame)

lemma get_all_agents_failure_raises:
  "get_all_agents_try lib w = (Inl e, w1) \<Longrightarrow> markup_error lib (read_error_line e) = Some e' \<Longrightarrow>
   get_all_agents lib w = (Inl e', w1)"
  by (simp add: get_all_agents_def console_print_def)

lemma get_all_agents_success_quiet:
  "get_all_agents_try lib w = (Inr r, w1) \<Longrightarrow>
   console (snd (get_all_agents lib w)) = console w"
  by (auto simp: get_all_agents_def split: option.splits dest: get_all_agents_try_frame)

text \<open>In \<^verbatim>\<open>src/subctl.py\<close> the fetch never prints, whatever happens.\<close>

lemma script_get_all_agents_never_prints:
  "console (snd (script_get_all_agents lib self w)) = console w"
  unfolding script_get_all_agents_def
  by (auto split: prod.splits sum.splits option.splits dest: get_all_agents_try_frame)

text \<open>
  Claim C2. A store-level failure of the fetch gives the empty mapping and exactly one
  diagnostic line. At a refused connection the fetch of \<^verbatim>\<open>src/subctl.py\<close> returns the
  empty mapping and leaves the console empty: the failure is silent. The fetch of
  \<^verbatim>\<open>src/subctl/orchestrator.py\<close> prints the one line at the same input.
\<close>

theorem script_get_all_agents_silent_failure:
  "script_get_all_agents example_lib script_init store_down =
     ([], store_down\<lparr>faults := []\<rparr>) \<and>
   get_all_agents example_lib store_down =
     (Inr [], store_down\<lparr>faults := [],
                     console := [''[red]Error reading from Redis: Connection refused[/red]'']\<rparr>)"
  by (simp add: script_get_all_agents_def script_init_def fetch_defs example_defs)

section \<open>The event recorder\<close>

text \<open>
  Claim C3. \<^verbatim>\<open>record_agent_event\<close> pushes the serialised event onto the head of the
  list at \<^verbatim>\<open>subctl:events:x\<close> and sets the expiry of the key to 3600 seconds. In
  \<^verbatim>\<open>src/subctl/orchestrator.py\<close> the name \<^verbatim>\<open>asdict\<close> is not imported: for every label,
  event and store the call raises \<^verbatim>\<open>NameError\<close> before the store is reached, the
  handler prints one line, and the store is left as it was: nothing is pushed and no
  expiry is set. On the example store the line is printed and the call returns.
\<close>

theorem record_agent_event_never_pushes:
  "record_agent_event lib l event w =
     console_print lib w
       (''[red]Error recording event: name '' @ quoted ''asdict'' @
        '' is not defined[/red]'') \<and>
   keyspace (snd (record_agent_event lib l event w)) = keyspace w \<and>
   expiry (snd (record_agent_event lib l event w)) = expiry w \<and>
   faults (snd (record_agent_event lib l event w)) = faults w \<and>
   record_agent_event example_lib ''x'' example_event (store_with blob_fleet) =
     (Inr (), (store_with blob_fleet)
        \<lparr>console := [''[red]Error recording event: name '' @ quoted ''asdict'' @
                     '' is not defined[/red]'']\<rparr>)"
  by (simp add: record_agent_event_def record_agent_event_in_def record_agent_event_try_def
                orchestrator_names_def record_error_line_def console_print_def
                example_lib_def example_markup_def quoted_def store_with_def
           split: option.splits)

text \<open>
  In \<^verbatim>\<open>src/subctl.py\<close> the name is imported, and an event whose \<^verbatim>\<open>timestamp\<close> is a
  \<^verbatim>\<open>datetime\<close>, as the dataclass annotates it, is refused by \<^verbatim>\<open>json.dumps\<close>.
\<close>

lemma script_record_agent_event_datetime:
  "timestamp event = PDatetime d \<Longrightarrow>
   script_record_agent_event lib l event w =
     console_print lib w
       ''[red]Error recording event: Object of type datetime is not JSON serializable[/red]''"
  by (simp add: script_record_agent_event_def record_agent_event_in_def
                record_agent_event_try_def script_names_def dumps_def asdict_def
                record_error_line_def)

lemma script_record_agent_event_example:
  "script_record_agent_event example_lib ''x'' example_event (store_with blob_fleet) =
     (Inr (), (store_with blob_fleet)
        \<lparr>console := [''[red]Error recording event: Object of type datetime is not JSON serializable[/red]'']\<rparr>)"
  by (simp add: script_record_agent_event_datetime [of _ "Datetime 0 None"] example_event_def
                console_print_def example_lib_def example_markup_def quoted_def store_with_def)

text \<open>
  An event that serialises, on a store that answers and holds a list or nothing at the
  key, is pushed to the head and the expiry is 3600 seconds.
\<close>

lemma script_record_agent_event_pushes:
  assumes "json_serializable (asdict event)"
    and "faults w = []"
    and "keyspace w (''subctl:events:'' @ l) = Some (RList xs) \<or>
         keyspace w (''subctl:events:'' @ l) = None"
  shows "fst (script_record_agent_event lib l event w) = Inr () \<and>
         keyspace (snd (script_record_agent_event lib l event w)) (''subctl:events:'' @ l) =
           Some (RList (json_dumps lib (asdict event) #
                        (case keyspace w (''subctl:events:'' @ l) of
                           Some (RList ys) \<Rightarrow> ys | _ \<Rightarrow> []))) \<and>
         expiry (snd (script_record_agent_event lib l event w)) (''subctl:events:'' @ l) =
           Some 3600 \<and>
         console (snd (script_record_agent_event lib l event w)) = console w"
  using assms
  by (auto simp: script_record_agent_event_def record_agent_event_in_def
                record_agent_event_try_def script_names_def dumps_def
                redis_lpush_def redis_expire_def next_fault_def Let_def)

text \<open>
  A write that fails at either command is caught and printed; the call returns when
  the console accepts the line.
\<close>

lemma record_agent_event_in_caught:
  "record_agent_event_try names lib l event w = (Inl e, w1) \<Longrightarrow>
   record_agent_event_in names lib l event w = console_print lib w1 (record_error_line e)"
  by (simp add: record_agent_event_in_def)

section \<open>The liveness filter\<close>

text \<open>
  Claim C1, as stated: for every snapshot, instant and threshold,
  \<^verbatim>\<open>get_active_agents\<close> returns a sub-mapping of the snapshot, and every record it
  returns satisfies \<open>now - last_update \<le> T\<close>. It does not return for every snapshot
  that \<^verbatim>\<open>get_all_agents\<close> delivers: a record whose \<^verbatim>\<open>last_update\<close> is an ISO-8601
  text with a UTC offset is decoded to an aware datetime, and one whose
  \<^verbatim>\<open>last_update\<close> is a JSON number is kept as it is; the subtraction from the naive
  \<^verbatim>\<open>datetime.now()\<close> then raises \<^verbatim>\<open>TypeError\<close> out of \<^verbatim>\<open>get_active_agents\<close>. And
  the bound is compared in doubles: at 00:10:00 and a threshold of 300000000 minutes
  the record of 1453-08-08T16:09:59.999999 is returned, one microsecond older than
  the threshold.
\<close>

theorem get_active_agents_raises_type_error:
  "get_all_agents example_lib (store_with blob_aware) =
     (Inr [(''a'', Agent (example_agent ''a'' (PDatetime (Datetime 0 (Some 0))) (PFloat (1 / 2))))],
      store_with blob_aware) \<and>
   fst (get_active_agents example_lib 600000000 None (store_with blob_aware)) =
     Inl (Exc TypeError
            (''can'' @ [CHR 0x27] @ ''t subtract offset-naive and offset-aware datetimes'')) \<and>
   get_all_agents example_lib (store_with blob_epoch) =
     (Inr [(''a'', Agent (example_agent ''a'' (PInt 1704067200) (PFloat (1 / 2))))],
      store_with blob_epoch) \<and>
   fst (get_active_agents example_lib 600000000 None (store_with blob_epoch)) =
     Inl (Exc TypeError
            (''unsupported operand type(s) for -: '' @ quoted ''datetime.datetime'' @
             '' and '' @ quoted ''int'')) \<and>
   get_active_agents example_lib 600000000 (Some 300000000) (store_with blob_old) =
     (Inr [(''old'', Agent (example_agent ''old''
                              (PDatetime (Datetime (- 17999999400000001) None))
                              (PFloat (1 / 2))))],
      store_with blob_old) \<and>
   (300000000 :: int) * 60000000 < 600000000 - (- 17999999400000001)"
  by (simp add: get_active_agents_def fetch_defs example_defs example_agent_def
                sub_datetime_def type_name_def age_minutes_rounds_down)

text \<open>
  Claim C1, amended. For every snapshot whose records each carry a naive datetime as
  \<^verbatim>\<open>last_update\<close>, every instant and every threshold, \<^verbatim>\<open>get_active_agents\<close> returns
  a sub-mapping of the snapshot. For every threshold \<open>T\<close> of less than \<open>2 ^ 27\<close>
  minutes in absolute value, about 255 years, it holds exactly the records of the
  snapshot with \<open>now - last_update \<le> T\<close>, where \<open>T\<close> is 10 minutes when the argument
  is omitted. Times are in microseconds, so \<open>T\<close> minutes are \<open>T * 60000000\<close>.
\<close>

theorem get_active_agents_sub_mapping:
  assumes all: "get_all_agents lib w = (Inr S, w1)"
    and naive: "\<forall>kv \<in> set S. \<forall>a. snd kv = Agent a \<longrightarrow>
                  (\<exists>t. last_update a = PDatetime (Datetime t None))"
  shows "\<exists>A. get_active_agents lib clock max_age w = (Inr A, w1) \<and>
           (\<forall>l e. dict_get A l = Some e \<longrightarrow> dict_get S l = Some e) \<and>
           (\<bar>case max_age of None \<Rightarrow> 10 | Some m \<Rightarrow> m\<bar> < 2 ^ 27 \<longrightarrow>
            (\<forall>l e. dict_get A l = Some e \<longleftrightarrow>
                  dict_get S l = Some e \<and>
                  (\<exists>a t. e = Agent a \<and> last_update a = PDatetime (Datetime t None) \<and>
                         clock - t \<le> (case max_age of None \<Rightarrow> 10 | Some m \<Rightarrow> m) * 60000000)))"
proof -
  let ?m = "case max_age of None \<Rightarrow> 10 | Some m \<Rightarrow> m"
  from get_active_agents_returns [OF all naive]
  obtain A where act: "get_active_agents lib clock max_age w = (Inr A, w1)" ..
  from all act have loop: "get_active_agents_loop (Datetime clock None) ?m S [] = Inr A"
    by (simp add: get_active_agents_def)
  from get_all_agents_distinct [OF all] have d: "distinct (map fst S)" .
  have sub: "dict_get S l = Some e" if "dict_get A l = Some e" for l e
    using get_active_agents_sound [OF all act that] by simp
  have exact: "dict_get A l = Some e \<longleftrightarrow>
          dict_get S l = Some e \<and>
          (\<exists>a t. e = Agent a \<and> last_update a = PDatetime (Datetime t None) \<and>
                 clock - t \<le> ?m * 60000000)" if small: "\<bar>?m\<bar> < 2 ^ 27" for l e
  proof
    assume "dict_get A l = Some e"
    from get_active_agents_sound [OF all act this]
    show "dict_get S l = Some e \<and>
          (\<exists>a t. e = Agent a \<and> last_update a = PDatetime (Datetime t None) \<and>
                 clock - t \<le> ?m * 60000000)"
      by (simp only: age_minutes_le [OF small])
  next
    assume r: "dict_get S l = Some e \<and>
          (\<exists>a t. e = Agent a \<and> last_update a = PDatetime (Datetime t None) \<and>
                 clock - t \<le> ?m * 60000000)"
    then obtain a t where e: "e = Agent a" and lu: "last_update a = PDatetime (Datetime t None)"
      and le: "clock - t \<le> ?m * 60000000" by blast
    from r e d have mem: "(l, Agent a) \<in> set S" by (simp add: dict_get_Some_iff)
    from lu have sd: "sub_datetime (Datetime clock None) (last_update a) = Inr (clock - t)"
      by (simp add: sub_datetime_naive)
    from le have age: "age_minutes (clock - t) \<le> of_int ?m"
      by (simp only: age_minutes_le [OF small])
    from loop_complete [OF loop d mem sd age] e show "dict_get A l = Some e" by simp
  qed
  from act sub exact show ?thesis by blast
qed

theorem get_active_agents_sub_mapping_witness:
  "\<exists>A. get_active_agents example_lib 600000000 None (store_with blob_fleet) =
         (Inr A, store_with blob_fleet) \<and>
       dict_get A ''fresh'' =
         Some (Agent (example_agent ''fresh'' (PDatetime (Datetime 300000000 None))
                        (PFloat (1 / 2)))) \<and>
       dict_get A ''stale'' = None \<and>
       dict_get A ''n'' = None"
proof -
  have naive: "\<forall>kv \<in> set fleet. \<forall>a. snd kv = Agent a \<longrightarrow>
                 (\<exists>t. last_update a = PDatetime (Datetime t None))"
    by (auto simp: fleet_def example_agent_def)
  have small: "\<bar>case None of None \<Rightarrow> 10 | Some m \<Rightarrow> m\<bar> < (2 :: int) ^ 27" by simp
  from get_active_agents_sub_mapping [OF fleet_snapshot naive, of 600000000 None] small
  obtain A where act: "get_active_agents example_lib 600000000 None (store_with blob_fleet) =
         (Inr A, store_with blob_fleet)"
    and iff: "\<And>l e. dict_get A l = Some e \<longleftrightarrow>
                  dict_get fleet l = Some e \<and>
                  (\<exists>a t. e = Agent a \<and> last_update a = PDatetime (Datetime t None) \<and>
                         600000000 - t \<le> (case None of None \<Rightarrow> 10 | Some m \<Rightarrow> m) * 60000000)"
    by blast
  have fresh: "dict_get A ''fresh'' =
         Some (Agent (example_agent ''fresh'' (PDatetime (Datetime 300000000 None))
                        (PFloat (1 / 2))))"
    unfolding iff by (simp add: fleet_def dict_get_def example_agent_def)
  have stale: "dict_get A ''stale'' = None"
  proof (cases "dict_get A ''stale''")
    case None
    then show ?thesis .
  next
    case (Some e)
    then show ?thesis
      unfolding iff by (auto simp: fleet_def dict_get_def example_agent_def)
  qed
  have n: "dict_get A ''n'' = None"
  proof (cases "dict_get A ''n''")
    case None
    then show ?thesis .
  next
    case (Some e)
    then show ?thesis
      unfolding iff by (auto simp: fleet_def dict_get_def)
  qed
  from act fresh stale n show ?thesis by blast
qed

text \<open>The active set of the example, by evaluation.\<close>

lemma fleet_active:
  "get_active_agents example_lib 600000000 None (store_with blob_fleet) =
     (Inr [(''fresh'', Agent (example_agent ''fresh'' (PDatetime (Datetime 300000000 None)) (PFloat (1 / 2)))),
           (''future'', Agent (example_agent ''future'' (PDatetime (Datetime 1200000000 None)) (PFloat (1 / 2))))],
      store_with blob_fleet)"
proof -
  have a: "age_minutes 300000000 \<le> 10" using age_minutes_whole [of 5] by simp
  have b: "\<not> age_minutes 4200000000 \<le> 10" using age_minutes_whole [of 70] by simp
  have c: "age_minutes (- 600000000) \<le> 10" using age_minutes_whole [of "- 10"] by simp
  show ?thesis
    by (simp add: get_active_agents_def fleet_snapshot fleet_def example_agent_def
                  sub_datetime_def a b c)
qed

text \<open>
  Claim C5, as stated: every record whose \<^verbatim>\<open>last_update\<close> lies after the query
  instant is in the active set. The snapshot holds the record \<^verbatim>\<open>future\<close>, ten minutes
  after the clock, and a record with an aware \<^verbatim>\<open>last_update\<close>: the filter raises
  \<^verbatim>\<open>TypeError\<close> and returns no active set, so the future record is in none.
\<close>

theorem future_record_lost_on_type_error:
  "get_all_agents example_lib (store_with blob_skew) =
     (Inr [(''future'', Agent (example_agent ''future'' (PDatetime (Datetime 1200000000 None))
                                 (PFloat (1 / 2)))),
           (''a'', Agent (example_agent ''a'' (PDatetime (Datetime 0 (Some 0))) (PFloat (1 / 2))))],
      store_with blob_skew) \<and>
   (600000000 :: int) < 1200000000 \<and>
   get_active_agents example_lib 600000000 None (store_with blob_skew) =
     (Inl (Exc TypeError
             (''can'' @ [CHR 0x27] @ ''t subtract offset-naive and offset-aware datetimes'')),
      store_with blob_skew)"
proof -
  have c: "age_minutes (- 600000000) \<le> 10" using age_minutes_whole [of "- 10"] by simp
  show ?thesis
    by (simp add: get_active_agents_def fetch_defs example_defs example_agent_def
                  sub_datetime_def c)
qed

text \<open>
  Claim C5, amended. In a snapshot whose records each carry a naive datetime as
  \<^verbatim>\<open>last_update\<close>, a record whose \<^verbatim>\<open>last_update\<close> lies after the query instant is in
  the active set that \<^verbatim>\<open>get_active_agents\<close> returns, for every non-negative threshold
  and for the default: the call returns, the age is the negative difference, it is not
  clamped, and it compares as at most the threshold.
\<close>

theorem future_record_is_active:
  assumes all: "get_all_agents lib w = (Inr S, w1)"
    and naive: "\<forall>kv \<in> set S. \<forall>a. snd kv = Agent a \<longrightarrow>
                  (\<exists>t. last_update a = PDatetime (Datetime t None))"
    and rec: "dict_get S l = Some (Agent a)"
    and lu: "last_update a = PDatetime (Datetime t None)"
    and future: "clock < t"
    and nonneg: "0 \<le> (case max_age of None \<Rightarrow> 10 | Some m \<Rightarrow> m)"
  shows "\<exists>A. get_active_agents lib clock max_age w = (Inr A, w1) \<and>
             dict_get A l = Some (Agent a) \<and>
             sub_datetime (Datetime clock None) (last_update a) = Inr (clock - t) \<and>
             age_minutes (clock - t) < 0"
proof -
  let ?m = "case max_age of None \<Rightarrow> 10 | Some m \<Rightarrow> m"
  from get_active_agents_returns [OF all naive]
  obtain A where act: "get_active_agents lib clock max_age w = (Inr A, w1)" ..
  from all act have loop: "get_active_agents_loop (Datetime clock None) ?m S [] = Inr A"
    by (simp add: get_active_agents_def)
  from get_all_agents_distinct [OF all] have d: "distinct (map fst S)" .
  with rec have mem: "(l, Agent a) \<in> set S" by (simp add: dict_get_Some_iff)
  from lu have sd: "sub_datetime (Datetime clock None) (last_update a) = Inr (clock - t)"
    by (simp add: sub_datetime_naive)
  from future have neg: "age_minutes (clock - t) < 0" by (intro age_minutes_neg) simp
  from nonneg have "(0 :: rat) \<le> of_int ?m" by (simp only: of_int_0_le_iff)
  with neg have age: "age_minutes (clock - t) \<le> of_int ?m" by linarith
  from loop_complete [OF loop d mem sd age] act sd neg show ?thesis by blast
qed

theorem future_record_is_active_witness:
  "dict_get fleet ''future'' =
     Some (Agent (example_agent ''future'' (PDatetime (Datetime 1200000000 None)) (PFloat (1 / 2)))) \<and>
   (600000000 :: int) < 1200000000 \<and>
   (\<exists>A. get_active_agents example_lib 600000000 None (store_with blob_fleet) =
          (Inr A, store_with blob_fleet) \<and>
        dict_get A ''future'' =
          Some (Agent (example_agent ''future'' (PDatetime (Datetime 1200000000 None)) (PFloat (1 / 2)))) \<and>
        age_minutes (600000000 - 1200000000) < 0)"
proof -
  let ?a = "example_agent ''future'' (PDatetime (Datetime 1200000000 None)) (PFloat (1 / 2))"
  have naive: "\<forall>kv \<in> set fleet. \<forall>a. snd kv = Agent a \<longrightarrow>
                 (\<exists>t. last_update a = PDatetime (Datetime t None))"
    by (auto simp: fleet_def example_agent_def)
  have rec: "dict_get fleet ''future'' = Some (Agent ?a)"
    by (simp add: fleet_def dict_get_def)
  have lu: "last_update ?a = PDatetime (Datetime 1200000000 None)"
    by (simp add: example_agent_def)
  have future: "(600000000 :: int) < 1200000000" by simp
  have nonneg: "(0 :: int) \<le> (case None of None \<Rightarrow> 10 | Some m \<Rightarrow> m)" by simp
  from future_record_is_active [OF fleet_snapshot naive rec lu future nonneg]
  show ?thesis using rec by auto
qed

section \<open>Entries that fail to decode\<close>

text \<open>
  What makes one entry raise: it is an object, and its textual \<^verbatim>\<open>last_update\<close> is
  refused by the parser or its keys are not exactly the ten fields. The types of the
  field values are not looked at.
\<close>

lemma convert_last_update_keys:
  "convert_last_update lib d = Inr d' \<Longrightarrow> fst ` set d' = fst ` set d"
proof -
  have k: "dict_get d k = Some x \<Longrightarrow> fst ` set (dict_set d k y) = fst ` set d" for k x y
  proof -
    assume "dict_get d k = Some x"
    then have "k \<in> fst ` set d" by (auto simp: dict_get_def dest: map_of_SomeD intro: rev_image_eqI)
    then have "map fst (dict_set d k y) = map fst d" by (simp add: keys_dict_set)
    then have "set (map fst (dict_set d k y)) = set (map fst d)" by simp
    then show ?thesis by simp
  qed
  assume c: "convert_last_update lib d = Inr d'"
  show ?thesis
  proof (cases "\<exists>s. dict_get d ''last_update'' = Some (PStr s)")
    case True
    then obtain s where s: "dict_get d ''last_update'' = Some (PStr s)" ..
    with c obtain dt where "d' = dict_set d ''last_update'' (PDatetime dt)"
      by (auto simp: convert_last_update_def split: sum.splits)
    with k [OF s] show ?thesis by simp
  next
    case False
    with c have "d' = d"
      by (auto simp: convert_last_update_def split: option.splits pyval.splits)
    then show ?thesis by simp
  qed
qed

lemma unexpected_keys_Nil:
  "unexpected_keys kw = [] \<longleftrightarrow> fst ` set kw \<subseteq> set AgentInfo_fields"
  by (auto simp: unexpected_keys_def filter_empty_conv)

lemma missing_fields_Nil:
  "missing_fields kw = [] \<longleftrightarrow> set AgentInfo_fields \<subseteq> fst ` set kw"
  by (auto simp: missing_fields_def filter_empty_conv dict_get_def map_of_eq_None_iff)

lemma AgentInfo_init_fails_iff:
  "isl (AgentInfo_init kw) \<longleftrightarrow>
   \<not> (fst ` set kw \<subseteq> set AgentInfo_fields \<and> set AgentInfo_fields \<subseteq> fst ` set kw)"
  unfolding unexpected_keys_Nil [symmetric] missing_fields_Nil [symmetric] AgentInfo_init_def
  by (auto split: list.splits)

lemma decode_value_fails_iff:
  "isl (decode_value lib v) \<longleftrightarrow>
   (\<exists>d. v = PDict d \<and>
      ((\<exists>s. dict_get d ''last_update'' = Some (PStr s) \<and> isl (fromisoformat lib s)) \<or>
       \<not> (fst ` set d \<subseteq> set AgentInfo_fields \<and> set AgentInfo_fields \<subseteq> fst ` set d)))"
proof (cases v)
  case (PDict d)
  show ?thesis
  proof (cases "convert_last_update lib d")
    case (Inl e)
    then have "\<exists>s. dict_get d ''last_update'' = Some (PStr s) \<and> isl (fromisoformat lib s)"
      by (auto simp: convert_last_update_def split: option.splits pyval.splits sum.splits)
    with Inl PDict show ?thesis by (simp add: decode_value_def)
  next
    case (Inr d')
    then have no: "\<not> (\<exists>s. dict_get d ''last_update'' = Some (PStr s) \<and> isl (fromisoformat lib s))"
      by (auto simp: convert_last_update_def split: option.splits pyval.splits sum.splits)
    from Inr have keys: "fst ` set d' = fst ` set d" by (rule convert_last_update_keys)
    have "isl (decode_value lib v) \<longleftrightarrow> isl (AgentInfo_init d')"
      using PDict Inr by (simp add: decode_value_def split: sum.splits)
    with no keys PDict show ?thesis by (auto simp: AgentInfo_init_fails_iff)
  qed
qed (simp_all add: decode_value_def)

text \<open>
  Claim C4, as stated: an entry that fails to parse by a missing field, a malformed
  timestamp or a wrong type aborts the decode. A field value of the wrong type is no
  failure in this code: the dataclass does not check its annotations. The blob holds
  a well-formed entry and an entry whose \<^verbatim>\<open>last_update\<close> is a number and whose
  \<^verbatim>\<open>package_compliance\<close> is a text; both fetchers return both entries.
\<close>

theorem wrong_typed_entry_is_returned:
  "get_all_agents example_lib (store_with blob_wrongtype) =
     (Inr [(''good'', Agent (example_agent ''good'' (PDatetime (Datetime 300000000 None))
                               (PFloat (1 / 2)))),
           (''odd'', Agent (example_agent ''odd'' (PInt 1704067200) (PStr ''high'')))],
      store_with blob_wrongtype) \<and>
   script_get_all_agents example_lib script_init (store_with blob_wrongtype) =
     ([(''good'', Agent (example_agent ''good'' (PDatetime (Datetime 300000000 None))
                           (PFloat (1 / 2)))),
       (''odd'', Agent (example_agent ''odd'' (PInt 1704067200) (PStr ''high'')))],
      store_with blob_wrongtype)"
  by (simp add: script_get_all_agents_def script_init_def fetch_defs example_defs
                example_agent_def)

text \<open>
  Claim C4, amended. An entry of a readable snapshot blob fails to decode when it is an
  object whose textual \<^verbatim>\<open>last_update\<close> the parser refuses, or that lacks a field, or
  that has a key that is no field. Then the decode aborts as a whole: the fetch of
  \<^verbatim>\<open>src/subctl.py\<close> returns the empty mapping; the fetch of
  \<^verbatim>\<open>src/subctl/orchestrator.py\<close> returns the empty mapping and prints one line
  whenever the console accepts the line; and no mapping that it returns is anything
  but empty, so neither returns the entries decoded before the failure.
\<close>

theorem malformed_entry_aborts_decode:
  assumes get: "redis_get w ''subctl:agents'' = (Inr (Some blob), w1)"
    and ne: "blob \<noteq> []"
    and loads: "json_loads lib blob = Inr (PDict raw)"
    and mem: "(k, PDict d) \<in> set raw"
    and bad: "(\<exists>s. dict_get d ''last_update'' = Some (PStr s) \<and> isl (fromisoformat lib s)) \<or>
              \<not> fst ` set d \<subseteq> set AgentInfo_fields \<or>
              \<not> set AgentInfo_fields \<subseteq> fst ` set d"
  shows "script_get_all_agents lib script_init w = ([], w1) \<and>
         (\<forall>m w2. get_all_agents lib w = (Inr m, w2) \<longrightarrow> m = []) \<and>
         (\<exists>e. get_all_agents_try lib w = (Inl e, w1) \<and>
              (markup_error lib (read_error_line e) = None \<longrightarrow>
                 get_all_agents lib w =
                   (Inr [], w1\<lparr>console := console w @ [read_error_line e]\<rparr>)))"
proof -
  from bad have "isl (decode_value lib (PDict d))"
    unfolding decode_value_fails_iff by blast
  then obtain e0 where "decode_value lib (PDict d) = Inl e0"
    by (cases "decode_value lib (PDict d)") simp_all
  from decode_items_fails [OF mem this] obtain e where "decode_items lib raw [] = Inl e" ..
  with get ne loads have aborted: "get_all_agents_try lib w = (Inl e, w1)"
    by (simp add: get_all_agents_try_def items_def)
  then have script: "script_get_all_agents lib script_init w = ([], w1)"
    by (simp add: script_get_all_agents_def script_init_def)
  have empty: "m = []" if "get_all_agents lib w = (Inr m, w2)" for m w2
    using get_all_agents_Inr [OF that] aborted by auto
  have printed: "get_all_agents lib w = (Inr [], w1\<lparr>console := console w @ [read_error_line e]\<rparr>)"
    if "markup_error lib (read_error_line e) = None"
    using aborted that by (rule get_all_agents_failure_reported)
  from empty have none_else: "\<forall>m w2. get_all_agents lib w = (Inr m, w2) \<longrightarrow> m = []"
    by blast
  from aborted printed
  have reported: "\<exists>e. get_all_agents_try lib w = (Inl e, w1) \<and>
              (markup_error lib (read_error_line e) = None \<longrightarrow>
                 get_all_agents lib w =
                   (Inr [], w1\<lparr>console := console w @ [read_error_line e]\<rparr>))"
    by (intro exI [of _ e]) simp
  from script none_else reported show ?thesis by (intro conjI)
qed

theorem malformed_entry_aborts_decode_witness:
  "script_get_all_agents example_lib script_init (store_with blob_partial) =
     ([], store_with blob_partial) \<and>
   get_all_agents example_lib (store_with blob_partial) =
     (Inr [], (store_with blob_partial)
        \<lparr>console := [read_error_line
                       (Exc TypeError
                          (missing_message
                             [''session_key'', ''channel'', ''total_tokens'', ''status'',
                              ''last_update'', ''assigned_tickets'', ''package_compliance'',
                              ''custom_code_ratio'', ''consensus_proof'']))]\<rparr>)"
proof -
  let ?e = "Exc TypeError
              (missing_message
                 [''session_key'', ''channel'', ''total_tokens'', ''status'',
                  ''last_update'', ''assigned_tickets'', ''package_compliance'',
                  ''custom_code_ratio'', ''consensus_proof''])"
  let ?raw = "[(''good'', PDict (example_fields ''good'' (PStr ''2024-01-01T00:05:00'')
                                   (PFloat (1 / 2)))),
               (''bad'', PDict [(''label'', PStr ''bad'')])]"
  have ne: "blob_partial \<noteq> []" by (simp add: blob_partial_def)
  have loads: "json_loads example_lib blob_partial = Inr (PDict ?raw)"
    by (simp add: example_defs)
  have mem: "(''bad'', PDict [(''label'', PStr ''bad'')]) \<in> set ?raw" by simp
  have bad: "(\<exists>s. dict_get [(''label'', PStr ''bad'')] ''last_update'' = Some (PStr s) \<and>
                  isl (fromisoformat example_lib s)) \<or>
             \<not> fst ` set [(''label'', PStr ''bad'')] \<subseteq> set AgentInfo_fields \<or>
             \<not> set AgentInfo_fields \<subseteq> fst ` set [(''label'', PStr ''bad'')]"
    by (simp add: AgentInfo_fields_def)
  have aborted: "get_all_agents_try example_lib (store_with blob_partial) =
                   (Inl ?e, store_with blob_partial)"
    by (simp add: get_all_agents_try_def redis_get_def next_fault_def items_def
                  decode_value_def convert_last_update_def AgentInfo_init_def
                  AgentInfo_fields_def unexpected_keys_def missing_fields_def
                  kwarg_def dict_get_def example_defs)
  have accepted: "markup_error example_lib (read_error_line ?e) = None"
    by (simp add: example_lib_def example_markup_def read_error_line_def
                  missing_message_def decimal_def quoted_def)
  from malformed_entry_aborts_decode [OF store_with_get [OF ne] ne loads mem bad]
  have script: "script_get_all_agents example_lib script_init (store_with blob_partial) =
                  ([], store_with blob_partial)"
    and printed: "\<exists>e. get_all_agents_try example_lib (store_with blob_partial) =
                         (Inl e, store_with blob_partial) \<and>
              (markup_error example_lib (read_error_line e) = None \<longrightarrow>
                 get_all_agents example_lib (store_with blob_partial) =
                   (Inr [], (store_with blob_partial)
                      \<lparr>console := console (store_with blob_partial) @ [read_error_line e]\<rparr>))"
    by blast+
  from printed aborted accepted
  have "get_all_agents example_lib (store_with blob_partial) =
          (Inr [], (store_with blob_partial)
             \<lparr>console := console (store_with blob_partial) @ [read_error_line ?e]\<rparr>)"
    by auto
  with script show ?thesis by (simp add: store_with_def)
qed

text \<open>The line of the example, as Python words it.\<close>

lemma missing_message_example:
  "missing_message [''status'', ''consensus_proof''] =
     ''AgentInfo.__init__() missing 2 required positional arguments: '' @
     quoted ''status'' @ '' and '' @ quoted ''consensus_proof''"
  by (simp add: missing_message_def decimal_def)

section \<open>What the decode keeps\<close>

text \<open>
  A decoded record holds the value of every field of the entry as it was; only a
  textual \<^verbatim>\<open>last_update\<close> is replaced, by the datetime the parser returned for it.
\<close>

lemma kwarg_dict_set: "kwarg (dict_set d k v) f = (if f = k then v else kwarg d f)"
  by (simp add: kwarg_def dict_get_dict_set)

lemma convert_last_update_other:
  "convert_last_update lib d = Inr d' \<Longrightarrow> f \<noteq> ''last_update'' \<Longrightarrow> kwarg d' f = kwarg d f"
  by (auto simp: convert_last_update_def kwarg_dict_set split: option.splits pyval.splits sum.splits)

lemma AgentInfo_init_fields:
  "AgentInfo_init kw = Inr a \<Longrightarrow>
   a = \<lparr> session_key = kwarg kw ''session_key'',
         label = kwarg kw ''label'',
         channel = kwarg kw ''channel'',
         total_tokens = kwarg kw ''total_tokens'',
         status = kwarg kw ''status'',
         last_update = kwarg kw ''last_update'',
         assigned_tickets = kwarg kw ''assigned_tickets'',
         package_compliance = kwarg kw ''package_compliance'',
         custom_code_ratio = kwarg kw ''custom_code_ratio'',
         consensus_proof = kwarg kw ''consensus_proof'' \<rparr>"
  by (auto simp: AgentInfo_init_def split: list.splits)

lemma decode_value_keeps_fields:
  assumes "decode_value lib (PDict d) = Inr (Agent a)"
  shows "AgentInfo.session_key a = kwarg d ''session_key'' \<and>
         label a = kwarg d ''label'' \<and>
         channel a = kwarg d ''channel'' \<and>
         total_tokens a = kwarg d ''total_tokens'' \<and>
         status a = kwarg d ''status'' \<and>
         assigned_tickets a = kwarg d ''assigned_tickets'' \<and>
         package_compliance a = kwarg d ''package_compliance'' \<and>
         custom_code_ratio a = kwarg d ''custom_code_ratio'' \<and>
         consensus_proof a = kwarg d ''consensus_proof'' \<and>
         (\<forall>s. kwarg d ''last_update'' = PStr s \<longrightarrow>
              (\<exists>dt. fromisoformat lib s = Inr dt \<and> last_update a = PDatetime dt)) \<and>
         ((\<forall>s. kwarg d ''last_update'' \<noteq> PStr s) \<longrightarrow>
              last_update a = kwarg d ''last_update'')"
proof -
  from assms obtain d' where c: "convert_last_update lib d = Inr d'"
    and i: "AgentInfo_init d' = Inr a"
    by (auto simp: decode_value_def split: sum.splits)
  note a = AgentInfo_init_fields [OF i]
  have lu1: "\<exists>dt. fromisoformat lib s = Inr dt \<and> kwarg d' ''last_update'' = PDatetime dt"
    if "kwarg d ''last_update'' = PStr s" for s
    using c that
    by (auto simp: convert_last_update_def kwarg_def dict_get_dict_set
             split: option.splits pyval.splits sum.splits)
  have lu2: "kwarg d' ''last_update'' = kwarg d ''last_update''"
    if "\<forall>s. kwarg d ''last_update'' \<noteq> PStr s"
    using c that
    by (auto simp: convert_last_update_def kwarg_def dict_get_dict_set
             split: option.splits pyval.splits sum.splits)
  show ?thesis
    unfolding a using lu1 lu2 by (simp add: convert_last_update_other [OF c])
qed

section \<open>Inspection\<close>

text \<open>
  \<^verbatim>\<open>get_agent_info\<close> looks the label up in the full snapshot of \<^verbatim>\<open>get_all_agents\<close>,
  so it finds a record that is older than the threshold and that no active set holds.
\<close>

lemma get_agent_info_lookup:
  "get_all_agents lib w = (Inr S, w1) \<Longrightarrow>
   get_agent_info lib l w = (Inr (dict_get S l), w1)"
  by (simp add: get_agent_info_def)

lemma get_agent_info_finds_stale:
  assumes all: "get_all_agents lib w = (Inr S, w1)"
    and rec: "dict_get S l = Some (Agent a)"
    and lu: "last_update a = PDatetime (Datetime t None)"
    and small: "\<bar>case max_age of None \<Rightarrow> 10 | Some m \<Rightarrow> m\<bar> < 2 ^ 27"
    and old: "(case max_age of None \<Rightarrow> 10 | Some m \<Rightarrow> m) * 60000000 < clock - t"
    and act: "get_active_agents lib clock max_age w = (Inr A, w2)"
  shows "dict_get A l = None \<and> get_agent_info lib l w = (Inr (Some (Agent a)), w1)"
proof -
  have "dict_get A l = None"
  proof (cases "dict_get A l")
    case None
    then show ?thesis .
  next
    case (Some e)
    from get_active_agents_sound [OF all act Some] rec lu old show ?thesis
      by (auto simp: age_minutes_le [OF small])
  qed
  with get_agent_info_lookup [OF all, of l] rec show ?thesis by simp
qed

lemma stale_agent_found:
  "get_agent_info example_lib ''stale'' (store_with blob_fleet) =
     (Inr (Some (Agent (example_agent ''stale'' (PDatetime (Datetime (- 3600000000) None))
                          (PFloat (1 / 2))))),
      store_with blob_fleet) \<and>
   (\<exists>A. get_active_agents example_lib 600000000 None (store_with blob_fleet) =
          (Inr A, store_with blob_fleet) \<and>
        dict_get A ''stale'' = None)"
  by (simp add: get_agent_info_lookup [OF fleet_snapshot] fleet_active)
     (simp add: fleet_def dict_get_def)

text \<open>
  For a label that the snapshot does not hold, \<^verbatim>\<open>get_agent_info\<close> returns \<open>None\<close> and
  the inspect branch of \<^verbatim>\<open>main\<close> prints the not-found line. The label is part of the
  line, and the line is printed as markup.
\<close>

lemma inspect_absent:
  "get_all_agents lib w = (Inr S, w1) \<Longrightarrow> dict_get S (agent_label args) = None \<Longrightarrow>
   inspect lib args w = console_print lib w1 (not_found_line (agent_label args))"
  by (simp add: inspect_def get_agent_info_def)

lemma inspect_absent_example:
  "inspect example_lib
       \<lparr>agent_label = ''nobody'', logs = False, tools = False, tokens = False,
        packages = False\<rparr> (store_with blob_fleet) =
     (Inr (), (store_with blob_fleet)\<lparr>console := [''[red]Agent nobody not found[/red]'']\<rparr>)"
proof -
  let ?args = "\<lparr>agent_label = ''nobody'', logs = False, tools = False, tokens = False,
                 packages = False\<rparr>"
  have "dict_get fleet (agent_label ?args) = None" by (simp add: fleet_def dict_get_def)
  from inspect_absent [OF fleet_snapshot this] show ?thesis
    by (simp add: not_found_line_def console_print_def example_lib_def example_markup_def
                  quoted_def store_with_def)
qed

text \<open>
  Claim C6. \<^verbatim>\<open>get_agent_info\<close> finds a stale record, and for every label absent
  from the snapshot the inspection prints the not-found message and raises no
  exception. The label \<^verbatim>\<open>[/x]\<close> is absent from the snapshot: \<^verbatim>\<open>get_agent_info\<close> returns
  \<open>None\<close>, and the print of the not-found line raises \<^verbatim>\<open>MarkupError\<close> out of \<^verbatim>\<open>main\<close>,
  since the label is read as a closing tag that no open tag matches. Nothing is
  printed.
\<close>

theorem inspect_absent_label_raises:
  "get_agent_info example_lib ''[/x]'' (store_with blob_fleet) =
     (Inr None, store_with blob_fleet) \<and>
   inspect example_lib
       \<lparr>agent_label = ''[/x]'', logs = False, tools = False, tokens = False,
        packages = False\<rparr> (store_with blob_fleet) =
     (Inl (Exc MarkupError
             (''closing tag '' @ quoted ''[/x]'' @ '' at position 11 doesn'' @
              [CHR 0x27] @ ''t match any open tag'')),
      store_with blob_fleet)"
proof -
  let ?args = "\<lparr>agent_label = ''[/x]'', logs = False, tools = False, tokens = False,
                 packages = False\<rparr>"
  have absent: "dict_get fleet (agent_label ?args) = None" by (simp add: fleet_def dict_get_def)
  from get_agent_info_lookup [OF fleet_snapshot, of "''[/x]''"] absent
  have info: "get_agent_info example_lib ''[/x]'' (store_with blob_fleet) =
                (Inr None, store_with blob_fleet)"
    by simp
  from inspect_absent [OF fleet_snapshot absent]
  have "inspect example_lib ?args (store_with blob_fleet) =
          (Inl (Exc MarkupError
                  (''closing tag '' @ quoted ''[/x]'' @ '' at position 11 doesn'' @
                   [CHR 0x27] @ ''t match any open tag'')),
           store_with blob_fleet)"
    by (simp add: not_found_line_def console_print_def example_lib_def example_markup_def)
  with info show ?thesis by (intro conjI)
qed

text \<open>The found branch on the stale record of the example: five lines.\<close>

lemma inspect_stale_example:
  "inspect example_lib
       \<lparr>agent_label = ''stale'', logs = False, tools = False, tokens = False,
        packages = False\<rparr> (store_with blob_fleet) =
     (Inr (), (store_with blob_fleet)
        \<lparr>console := [''[bold]Agent: stale[/bold]'', ''Status: working'', ''Tokens: 1,200'',
                     ''Package Compliance: 50.0%'', ''Last Update: 2023-12-31 23:00:00'']\<rparr>)"
proof -
  have info: "get_agent_info example_lib ''stale'' (store_with blob_fleet) =
                (Inr (Some (Agent (example_agent ''stale''
                                     (PDatetime (Datetime (- 3600000000) None))
                                     (PFloat (1 / 2))))),
                 store_with blob_fleet)"
    by (simp add: get_agent_info_lookup [OF fleet_snapshot]) (simp add: fleet_def dict_get_def)
  show ?thesis
    unfolding inspect_def
    by (simp add: info)
       (simp add: print_agent_info_def print_then_def print_if_def print_flags_def
                  console_print_def example_agent_def example_lib_def example_markup_def
                  example_format_def example_strftime_def quoted_def store_with_def)
qed

section \<open>The compliance cell\<close>



section \<open>Values that are no records\<close>

text \<open>
  Claim C9, as stated: for every blob in which a label maps to a JSON value that is no
  object, \<^verbatim>\<open>get_all_agents\<close> places the raw value into the returned mapping. It
  fails where another entry of the blob does not decode: the blob maps \<^verbatim>\<open>n\<close> to 7 and
  \<^verbatim>\<open>bad\<close> to an object without fields, and the mapping that either fetcher returns is
  empty.
\<close>

theorem raw_value_lost_on_abort:
  "json_loads example_lib blob_raw_abort = Inr (PDict [(''n'', PInt 7), (''bad'', PDict [])]) \<and>
   fst (get_all_agents example_lib (store_with blob_raw_abort)) = Inr [] \<and>
   fst (script_get_all_agents example_lib script_init (store_with blob_raw_abort)) = []"
  by (simp add: script_get_all_agents_def script_init_def fetch_defs example_defs)

text \<open>
  Claim C9, amended. For every blob whose entries all decode and in which a label maps
  to a JSON value that is no object, \<^verbatim>\<open>get_all_agents\<close> returns a mapping that holds
  the raw value unchanged under that label, and every active set that
  \<^verbatim>\<open>get_active_agents\<close> returns holds nothing under that label; when every record of
  the mapping carries a naive datetime, \<^verbatim>\<open>get_active_agents\<close> does return such an
  active set. The object \<open>raw\<close> is a dict: its keys are distinct.
\<close>

theorem raw_value_passes_through:
  assumes get: "redis_get w ''subctl:agents'' = (Inr (Some blob), w1)"
    and ne: "blob \<noteq> []"
    and loads: "json_loads lib blob = Inr (PDict raw)"
    and d: "distinct (map fst raw)"
    and ok: "list_all (\<lambda>kv. \<not> isl (decode_value lib (snd kv))) raw"
    and mem: "(l, v) \<in> set raw"
    and nd: "\<forall>d. v \<noteq> PDict d"
  shows "\<exists>S. get_all_agents lib w = (Inr S, w1) \<and>
             dict_get S l = Some (Raw v) \<and>
             (\<forall>A. fst (get_active_agents lib clock max_age w) = Inr A \<longrightarrow>
                  dict_get A l = None) \<and>
             ((\<forall>kv \<in> set S. \<forall>a. snd kv = Agent a \<longrightarrow>
                  (\<exists>t. last_update a = PDatetime (Datetime t None))) \<longrightarrow>
              (\<exists>A. get_active_agents lib clock max_age w = (Inr A, w1) \<and>
                   dict_get A l = None))"
proof -
  from decode_items_total [OF ok] obtain S where S: "decode_items lib raw [] = Inr S" ..
  with get ne loads have all: "get_all_agents lib w = (Inr S, w1)"
    by (simp add: get_all_agents_def get_all_agents_try_def items_def)
  from nd have raw: "decode_value lib v = Inr (Raw v)"
    by (cases v) (simp_all add: decode_value_def)
  from d mem have "map_of raw l = Some v" by simp
  with decode_items_get [OF S d, of l] raw have get_l: "dict_get S l = Some (Raw v)"
    by (simp add: dict_get_def)
  have excluded: "dict_get A l = None"
    if act: "fst (get_active_agents lib clock max_age w) = Inr A" for A
  proof (cases "dict_get A l")
    case None
    then show ?thesis .
  next
    case (Some x)
    from act have "get_active_agents lib clock max_age w = (Inr A, w1)"
      using all by (simp add: get_active_agents_def Let_def)
    from get_active_agents_sound [OF all this Some] get_l show ?thesis by auto
  qed
  have returns: "\<exists>A. get_active_agents lib clock max_age w = (Inr A, w1) \<and> dict_get A l = None"
    if naive: "\<forall>kv \<in> set S. \<forall>a. snd kv = Agent a \<longrightarrow>
                  (\<exists>t. last_update a = PDatetime (Datetime t None))"
  proof -
    from get_active_agents_returns [OF all naive]
    obtain A where act: "get_active_agents lib clock max_age w = (Inr A, w1)" ..
    then have "fst (get_active_agents lib clock max_age w) = Inr A" by simp
    from excluded [OF this] act show ?thesis by blast
  qed
  from excluded have none: "\<forall>A. fst (get_active_agents lib clock max_age w) = Inr A \<longrightarrow>
                          dict_get A l = None"
    by blast
  from returns
  have "(\<forall>kv \<in> set S. \<forall>a. snd kv = Agent a \<longrightarrow>
            (\<exists>t. last_update a = PDatetime (Datetime t None))) \<longrightarrow>
        (\<exists>A. get_active_agents lib clock max_age w = (Inr A, w1) \<and> dict_get A l = None)"
    by (rule impI)
  with all get_l none show ?thesis
    by - (rule exI [of _ S], intro conjI; assumption)
qed

theorem raw_value_passes_through_witness:
  "\<exists>S. get_all_agents example_lib (store_with blob_fleet) = (Inr S, store_with blob_fleet) \<and>
       dict_get S ''n'' = Some (Raw (PInt 7)) \<and>
       (\<exists>A. get_active_agents example_lib 600000000 None (store_with blob_fleet) =
              (Inr A, store_with blob_fleet) \<and>
            dict_get A ''n'' = None)"
proof -
  let ?raw = "[(''fresh'', PDict (example_fields ''fresh'' (PStr ''2024-01-01T00:05:00'')
                                         (PFloat (1 / 2)))),
                    (''stale'', PDict (example_fields ''stale'' (PStr ''2023-12-31T23:00:00'')
                                         (PFloat (1 / 2)))),
                    (''future'', PDict (example_fields ''future'' (PStr ''2024-01-01T00:20:00'')
                                          (PFloat (1 / 2)))),
                    (''n'', PInt 7)]"
  have ne: "blob_fleet \<noteq> []" by (simp add: blob_fleet_def)
  have loads: "json_loads example_lib blob_fleet = Inr (PDict ?raw)"
    by (simp add: example_defs)
  have d: "distinct (map fst ?raw)" by simp
  have ok: "list_all (\<lambda>kv. \<not> isl (decode_value example_lib (snd kv))) ?raw"
    by (simp add: fetch_defs example_defs)
  have mem: "(''n'', PInt 7) \<in> set ?raw" by simp
  have nd: "\<forall>d. PInt 7 \<noteq> PDict d" by simp
  have naive: "\<forall>kv \<in> set fleet. \<forall>a. snd kv = Agent a \<longrightarrow>
                 (\<exists>t. last_update a = PDatetime (Datetime t None))"
    by (auto simp: fleet_def example_agent_def)
  from raw_value_passes_through [OF store_with_get [OF ne] ne loads d ok mem nd,
         of 600000000 None]
  obtain S where all: "get_all_agents example_lib (store_with blob_fleet) =
                         (Inr S, store_with blob_fleet)"
    and get_n: "dict_get S ''n'' = Some (Raw (PInt 7))"
    and returns: "(\<forall>kv \<in> set S. \<forall>a. snd kv = Agent a \<longrightarrow>
                  (\<exists>t. last_update a = PDatetime (Datetime t None))) \<longrightarrow>
              (\<exists>A. get_active_agents example_lib 600000000 None (store_with blob_fleet) =
                     (Inr A, store_with blob_fleet) \<and>
                   dict_get A ''n'' = None)"
    by blast
  from all fleet_snapshot have "S = fleet" by simp
  with naive returns all get_n show ?thesis by blast
qed

section \<open>The round trip\<close>

lemma dict_set_append: "k \<notin> fst ` set d \<Longrightarrow> dict_set d k v = d @ [(k, v)]"
  by (induction d) auto

lemma decode_encode_record:
  assumes lu: "last_update a = PDatetime dt"
    and inv: "fromisoformat lib (isoformat dt) = Inr dt"
  shows "decode_value lib (encode_record isoformat a) = Inr (Agent a)"
proof -
  have "AgentInfo_init
          [(''session_key'', AgentInfo.session_key a), (''label'', label a),
           (''channel'', channel a), (''total_tokens'', total_tokens a),
           (''status'', status a), (''last_update'', PDatetime dt),
           (''assigned_tickets'', assigned_tickets a),
           (''package_compliance'', package_compliance a),
           (''custom_code_ratio'', custom_code_ratio a),
           (''consensus_proof'', consensus_proof a)] = Inr a"
    using lu
    by (cases a) (simp add: AgentInfo_init_def AgentInfo_fields_def unexpected_keys_def
                            missing_fields_def kwarg_def dict_get_def)
  with lu inv show ?thesis
    by (simp add: decode_value_def encode_record_def convert_last_update_def dict_get_def)
qed

lemma decode_items_encoded:
  assumes recs: "\<forall>kv \<in> set S. \<exists>a dt. snd kv = Agent a \<and> last_update a = PDatetime dt \<and>
                    fromisoformat lib (isoformat dt) = Inr dt"
    and d: "distinct (map fst S)"
    and disj: "fst ` set acc \<inter> fst ` set S = {}"
  shows "decode_items lib
           (map (\<lambda>kv. (fst kv, case snd kv of Agent a \<Rightarrow> encode_record isoformat a
                                           | Raw v \<Rightarrow> v)) S) acc = Inr (acc @ S)"
  using assms
proof (induction S arbitrary: acc)
  case Nil
  then show ?case by simp
next
  case (Cons kv S)
  obtain k e where kv: "kv = (k, e)" by (cases kv)
  from Cons.prems(1) kv obtain a dt where e: "e = Agent a"
    and lu: "last_update a = PDatetime dt"
    and inv: "fromisoformat lib (isoformat dt) = Inr dt"
    by auto
  have dec: "decode_value lib (encode_record isoformat a) = Inr (Agent a)"
    using lu inv by (rule decode_encode_record)
  from Cons.prems(3) kv have "k \<notin> fst ` set acc" by auto
  then have app: "dict_set acc k (Agent a) = acc @ [(k, Agent a)]" by (rule dict_set_append)
  have recs': "\<forall>kv \<in> set S. \<exists>a dt. snd kv = Agent a \<and> last_update a = PDatetime dt \<and>
                    fromisoformat lib (isoformat dt) = Inr dt"
    using Cons.prems(1) by simp
  have d': "distinct (map fst S)" using Cons.prems(2) by simp
  have disj': "fst ` set (acc @ [(k, Agent a)]) \<inter> fst ` set S = {}"
    using Cons.prems(2,3) kv by auto
  from Cons.IH [OF recs' d' disj'] kv e dec app show ?case by simp
qed

text \<open>
  Claim C8. A well-formed snapshot blob is the serialized form of a snapshot of records,
  each with a datetime as \<^verbatim>\<open>last_update\<close>. Decoding such a blob gives that snapshot
  back, every field of every record and the timestamp to the microsecond, and
  re-encoding the decoded snapshot gives the blob back. The library is assumed to parse
  what it printed: the JSON text of the blob, and the ISO-8601 text of each timestamp.
\<close>

theorem snapshot_round_trip:
  assumes recs: "\<forall>kv \<in> set S. \<exists>a dt. snd kv = Agent a \<and> last_update a = PDatetime dt \<and>
                    fromisoformat lib (isoformat dt) = Inr dt"
    and d: "distinct (map fst S)"
    and blob: "blob = json_dumps lib (encode_snapshot isoformat S)"
    and ne: "blob \<noteq> []"
    and loads: "json_loads lib blob = Inr (encode_snapshot isoformat S)"
    and get: "redis_get w ''subctl:agents'' = (Inr (Some blob), w1)"
  shows "\<exists>m. get_all_agents lib w = (Inr m, w1) \<and> m = S \<and>
             json_dumps lib (encode_snapshot isoformat m) = blob"
proof -
  have "fst ` set ([] :: entry dict) \<inter> fst ` set S = {}" by simp
  from decode_items_encoded [OF recs d this]
  have "decode_items lib
          (map (\<lambda>kv. (fst kv, case snd kv of Agent a \<Rightarrow> encode_record isoformat a
                                          | Raw v \<Rightarrow> v)) S) [] = Inr S"
    by simp
  with get ne loads have "get_all_agents lib w = (Inr S, w1)"
    by (simp add: get_all_agents_def get_all_agents_try_def items_def encode_snapshot_def)
  with blob show ?thesis by simp
qed

theorem snapshot_round_trip_witness:
  "\<exists>m. get_all_agents example_lib (store_with blob_single) = (Inr m, store_with blob_single) \<and>
       m = [(''good'', Agent (example_agent ''good'' (PDatetime (Datetime 300000000 None))
                               (PFloat (1 / 2))))] \<and>
       json_dumps example_lib (encode_snapshot example_isoformat m) = blob_single"
proof -
  let ?S = "[(''good'', Agent (example_agent ''good'' (PDatetime (Datetime 300000000 None))
                                (PFloat (1 / 2))))]"
  have enc: "encode_snapshot example_isoformat ?S = single"
    by (simp add: encode_snapshot_def encode_record_def example_agent_def
                  example_isoformat_def single_def example_fields_def)
  have recs: "\<forall>kv \<in> set ?S. \<exists>a dt. snd kv = Agent a \<and> last_update a = PDatetime dt \<and>
                 fromisoformat example_lib (example_isoformat dt) = Inr dt"
    by (simp add: example_agent_def example_lib_def example_isoformat_def
                  example_fromisoformat_def)
  have d: "distinct (map fst ?S)" by simp
  have blob: "blob_single = json_dumps example_lib (encode_snapshot example_isoformat ?S)"
    by (simp add: enc example_lib_def example_dumps_def)
  have ne: "blob_single \<noteq> []" by (simp add: blob_single_def)
  have loads: "json_loads example_lib blob_single = Inr (encode_snapshot example_isoformat ?S)"
    unfolding enc by (simp add: example_lib_def example_loads_def blob_aware_def blob_epoch_def
        blob_old_def blob_skew_def blob_partial_def blob_wrongtype_def blob_markup_def
        blob_raw_abort_def blob_fleet_def blob_single_def)
  from snapshot_round_trip [OF recs d blob ne loads store_with_get [OF ne]]
  show ?thesis .
qed

end
